theory Spec2Isabelle
  imports Main "HOL-Library.Word"
begin

unbundle bit_operations_syntax

section \<open>sdsl memory management: \<^verbatim>\<open>include/sdsl/memory_management.hpp\<close>\<close>

text \<open>
  A shallow embedding of the usage profiler (\<^verbatim>\<open>memory_monitor\<close>), of the ownership test of
  \<^verbatim>\<open>hugepage_allocator\<close> and of the vector operations of \<^verbatim>\<open>memory_manager\<close>.

  \<^item> \<^verbatim>\<open>uint64_t\<close>, \<^verbatim>\<open>size_t\<close> and \<^verbatim>\<open>int64_t\<close> are \<open>64 word\<close>: addition and shifts wrap at
    \<open>2 ^ 64\<close>; the comparisons that the header takes on signed values are written \<open><s\<close>.
  \<^item> Pointers are addresses of type \<open>64 word\<close>; \<^verbatim>\<open>nullptr\<close> is address 0.
  \<^item> \<^verbatim>\<open>timer::now()\<close> reads a clock. Every operation that reads it takes the value read as
    an argument. A time point is a signed 64-bit count of nanosecond ticks (the
    representation and the period of \<^verbatim>\<open>high_resolution_clock\<close> in libstdc++ and libc++), a
    duration of type \<^verbatim>\<open>std::chrono::milliseconds\<close> a signed 64-bit count of milliseconds.
    Both are \<open>64 word\<close>: sums and products wrap as they do in the compiled code, and time
    points are compared with \<open><s\<close>.
  \<^item> A \<^verbatim>\<open>throw\<close> is a result \<open>Inl e\<close>. So is a step on which C++ puts no meaning
    (\<^verbatim>\<open>top()\<close> of an empty \<^verbatim>\<open>std::stack\<close>, a write outside the block a pointer addresses):
    the result is \<open>Inl Undefined_Behaviour\<close>.
  \<^item> The spin lock is left out: the operations are modelled one at a time.
\<close>

datatype error =
  Bad_Alloc                 \<comment> \<open>\<^verbatim>\<open>std::bad_alloc\<close>\<close>
| System_Error_ENOMEM       \<comment> \<open>\<^verbatim>\<open>std::system_error(ENOMEM, ...)\<close>\<close>
| Undefined_Behaviour

type_synonym addr = "64 word"
type_synonym time_point = "64 word"

definition nullptr :: addr where
  "nullptr = 0"

subsection \<open>memory_monitor\<close>

record mm_alloc =
  timestamp :: time_point
  usage :: "64 word"

record mm_event =
  name :: string
  allocations :: "mm_alloc list"

text \<open>The constructor \<^verbatim>\<open>mm_event(n, usage)\<close>; \<open>now\<close> is the value of \<^verbatim>\<open>timer::now()\<close>.\<close>

definition mm_event_new :: "string \<Rightarrow> 64 word \<Rightarrow> time_point \<Rightarrow> mm_event" where
  "mm_event_new n u now = \<lparr>name = n, allocations = [\<lparr>timestamp = now, usage = u\<rparr>]\<rparr>"

text \<open>\<^verbatim>\<open>allocations.emplace_back(t, u)\<close>\<close>

definition emplace_back :: "time_point \<Rightarrow> 64 word \<Rightarrow> mm_event \<Rightarrow> mm_event" where
  "emplace_back t u e = e\<lparr>allocations := allocations e @ [\<lparr>timestamp = t, usage = u\<rparr>]\<rparr>"

text \<open>
  The state of the singleton \<^verbatim>\<open>the_monitor()\<close>. \<open>event_stack\<close> has its top at the head;
  \<open>completed_events\<close> grows at the end, as \<^verbatim>\<open>std::vector::emplace_back\<close> does.
\<close>

record memory_monitor =
  log_granularity :: "64 word"      \<comment> \<open>milliseconds\<close>
  current_usage :: "64 word"
  track_usage :: bool
  completed_events :: "mm_event list"
  event_stack :: "mm_event list"
  start_log :: time_point
  last_event :: time_point

text \<open>The default member initialisers of the class; a default time point is the epoch.\<close>

definition the_monitor :: memory_monitor where
  "the_monitor = \<lparr>log_granularity = 20, current_usage = 0, track_usage = False,
     completed_events = [], event_stack = [], start_log = 0, last_event = 0\<rparr>"

definition granularity :: "64 word \<Rightarrow> memory_monitor \<Rightarrow> memory_monitor" where
  "granularity ms m = m\<lparr>log_granularity := ms\<rparr>"

text \<open>\<^verbatim>\<open>peak()\<close>: the outer loop runs over the completed events, the inner one over their samples.\<close>

definition peak_step :: "64 word \<Rightarrow> mm_alloc \<Rightarrow> 64 word" where
  "peak_step mx a = (if mx <s usage a then usage a else mx)"

definition peak :: "memory_monitor \<Rightarrow> 64 word" where
  "peak m = foldl (\<lambda>mx ev. foldl peak_step mx (allocations ev)) 0 (completed_events m)"

text \<open>The loop \<^verbatim>\<open>while (m.event_stack.size()) m.event_stack.pop();\<close> of \<^verbatim>\<open>start()\<close>.\<close>

fun pop_all :: "mm_event list \<Rightarrow> mm_event list" where
  "pop_all [] = []"
| "pop_all (e # es) = pop_all es"

text \<open>
  \<^verbatim>\<open>start()\<close> reads the clock twice: \<open>now\<close> is the value assigned to \<^verbatim>\<open>start_log\<close>, \<open>now'\<close> the
  value that the constructor of the event "unknown" reads after it.
\<close>

definition start :: "time_point \<Rightarrow> time_point \<Rightarrow> memory_monitor \<Rightarrow> memory_monitor" where
  "start now now' m =
     (let m1 = m\<lparr>track_usage := True\<rparr>;
          m2 = (if length (completed_events m1) \<noteq> 0 then m1\<lparr>completed_events := []\<rparr> else m1);
          m3 = m2\<lparr>event_stack := pop_all (event_stack m2)\<rparr>;
          m4 = m3\<lparr>start_log := now\<rparr>;
          m5 = m4\<lparr>current_usage := 0\<rparr>;
          m6 = m5\<lparr>last_event := start_log m5\<rparr>
      in m6\<lparr>event_stack := mm_event_new ''unknown'' 0 now' # event_stack m6\<rparr>)"

text \<open>The loop of \<^verbatim>\<open>stop()\<close>: the top of the stack moves to the end of the completed events.\<close>

fun drain :: "mm_event list \<Rightarrow> mm_event list \<Rightarrow> mm_event list \<times> mm_event list" where
  "drain completed [] = (completed, [])"
| "drain completed (tos # rest) = drain (completed @ [tos]) rest"

definition stop :: "memory_monitor \<Rightarrow> memory_monitor" where
  "stop m =
     (case drain (completed_events m) (event_stack m) of
        (completed, stack) \<Rightarrow>
          m\<lparr>completed_events := completed, event_stack := stack, track_usage := False\<rparr>)"

text \<open>
  \<^verbatim>\<open>record(delta)\<close>. The sum of a time point and \<^verbatim>\<open>log_granularity\<close> is taken in signed
  64-bit ticks, one millisecond being \<open>1000000\<close> of them, and compared signed.
  \<^verbatim>\<open>event_stack.top()\<close> of an empty stack has no meaning.
\<close>

definition record_delta :: "64 word \<Rightarrow> time_point \<Rightarrow> memory_monitor \<Rightarrow> error + memory_monitor" where
  "record_delta delta cur m =
     (if track_usage m then
        (if last_event m + log_granularity m * 1000000 <s cur then
           (case event_stack m of
              [] \<Rightarrow> Inl Undefined_Behaviour
            | tos # rest \<Rightarrow>
                (let tos1 = emplace_back cur (current_usage m) tos;
                     m1 = m\<lparr>current_usage := current_usage m + delta\<rparr>;
                     tos2 = emplace_back cur (current_usage m1) tos1
                 in Inr (m1\<lparr>event_stack := tos2 # rest, last_event := cur\<rparr>)))
         else
           (case event_stack m of
              [] \<Rightarrow> Inl Undefined_Behaviour
            | tos # rest \<Rightarrow>
                (if length (allocations tos) \<noteq> 0 then
                   (let m1 = m\<lparr>current_usage := current_usage m + delta\<rparr>;
                        back = (last (allocations tos))\<lparr>usage := current_usage m1\<rparr>;
                        back' = back\<lparr>timestamp := cur\<rparr>;
                        tos' = tos\<lparr>allocations := butlast (allocations tos) @ [back']\<rparr>
                    in Inr (m1\<lparr>event_stack := tos' # rest\<rparr>))
                 else Inr m)))
      else Inr m)"

text \<open>
  \<^verbatim>\<open>mm_event_proxy\<close>: the handle of a named scope. Its member \<^verbatim>\<open>created\<close> is never written
  or read and is left out.
\<close>

record mm_event_proxy =
  add :: bool

definition mm_event_proxy_new ::
  "string \<Rightarrow> 64 word \<Rightarrow> bool \<Rightarrow> time_point \<Rightarrow> memory_monitor \<Rightarrow> mm_event_proxy \<times> memory_monitor" where
  "mm_event_proxy_new n u a now m =
     (\<lparr>add = a\<rparr>, if a then m\<lparr>event_stack := mm_event_new n u now # event_stack m\<rparr> else m)"

text \<open>The destructor \<^verbatim>\<open>~mm_event_proxy()\<close>; \<open>cur_time\<close> is the value of \<^verbatim>\<open>timer::now()\<close>.\<close>

definition mm_event_proxy_delete ::
  "mm_event_proxy \<Rightarrow> time_point \<Rightarrow> memory_monitor \<Rightarrow> error + memory_monitor" where
  "mm_event_proxy_delete p cur_time m =
     (if add p then
        (case event_stack m of
           [] \<Rightarrow> Inl Undefined_Behaviour
         | cur # rest \<Rightarrow>
             (let cur' = emplace_back cur_time (current_usage m) cur;
                  m1 = m\<lparr>completed_events := completed_events m @ [cur']\<rparr>;
                  m2 = m1\<lparr>event_stack := rest\<rparr>
              in (case event_stack m2 of
                    [] \<Rightarrow> Inr m2
                  | tos # below \<Rightarrow>
                      (if length (allocations tos) \<noteq> 0 then
                         (let last_usage = usage (last (allocations tos))
                          in Inr (m2\<lparr>event_stack := emplace_back cur_time last_usage tos # below\<rparr>))
                       else Inr m2))))
      else Inr m)"

text \<open>\<^verbatim>\<open>event(name)\<close>\<close>

definition event :: "string \<Rightarrow> time_point \<Rightarrow> memory_monitor \<Rightarrow> mm_event_proxy \<times> memory_monitor" where
  "event n now m =
     (if track_usage m then mm_event_proxy_new n (current_usage m) True now m
      else mm_event_proxy_new n (current_usage m) False now m)"

text \<open>
  A handle lives for a block of the calling code: it is made where the block is entered and
  deleted where the block is left. \<open>Scope n t0 body t1\<close> is such a block, entered at time
  \<open>t0\<close> and left at time \<open>t1\<close>; \<open>Record_Usage d t\<close> is a call \<^verbatim>\<open>record(d)\<close> at time \<open>t\<close>.
\<close>

datatype stmt =
  Record_Usage "64 word" time_point
| Scope string time_point "stmt list" time_point

fun exec :: "stmt \<Rightarrow> memory_monitor \<Rightarrow> error + memory_monitor"
  and exec_list :: "stmt list \<Rightarrow> memory_monitor \<Rightarrow> error + memory_monitor" where
  "exec (Record_Usage d t) m = record_delta d t m"
| "exec (Scope n t0 body t1) m =
     (case event n t0 m of
        (p, m1) \<Rightarrow>
          (case exec_list body m1 of
             Inl e \<Rightarrow> Inl e
           | Inr m2 \<Rightarrow> mm_event_proxy_delete p t1 m2))"
| "exec_list [] m = Inr m"
| "exec_list (s # ss) m =
     (case exec s m of
        Inl e \<Rightarrow> Inl e
      | Inr m1 \<Rightarrow> exec_list ss m1)"

subsection \<open>hugepage_allocator\<close>

text \<open>
  The data members of the class. \<^verbatim>\<open>m_free_large\<close> is read and written only by member functions
  that the header declares and does not define; it is left out with them.
\<close>

record hugepage_allocator =
  m_base :: addr
  m_first_block :: addr
  m_top :: addr
  m_total_size :: "64 word"

definition in_address_space :: "hugepage_allocator \<Rightarrow> addr \<Rightarrow> bool" where
  "in_address_space a ptr =
     (if ptr = nullptr then True
      else if m_base a \<le> ptr \<and> ptr < m_top a then True
      else False)"

subsection \<open>The memory that the facade works on\<close>

record memory_manager =
  hugepages :: bool

text \<open>
  The two singletons \<^verbatim>\<open>the_manager()\<close> and \<^verbatim>\<open>the_allocator()\<close>, and the part of the C library
  and of the operating system that the header calls: \<open>blocks\<close> maps the address of every live
  block to its 64-bit words, \<open>realloc_requests\<close>, \<open>calloc_requests\<close> and \<open>mmap_requests\<close>
  count the calls of \<^verbatim>\<open>realloc\<close>, \<^verbatim>\<open>calloc\<close> and \<^verbatim>\<open>mmap\<close> made so far.
\<close>

record memory =
  the_manager :: memory_manager
  the_allocator :: hugepage_allocator
  blocks :: "addr \<rightharpoonup> 64 word list"
  realloc_requests :: nat
  calloc_requests :: nat
  mmap_requests :: nat

definition MAP_FAILED :: addr where
  "MAP_FAILED = - 1"

text \<open>
  \<^verbatim>\<open>mmap\<close>: the operating system decides the answer; \<open>mapped\<close> is the address it returns
  (\<open>MAP_FAILED\<close> when it declines).
\<close>

definition sys_mmap :: "addr \<Rightarrow> 64 word \<Rightarrow> memory \<Rightarrow> addr \<times> memory" where
  "sys_mmap mapped len s = (mapped, s\<lparr>mmap_requests := mmap_requests s + 1\<rparr>)"

text \<open>
  \<^verbatim>\<open>realloc\<close>: the C library decides whether it serves a request. When it declines, it returns
  the null pointer and leaves every block as it is. When it grants, it chooses the address
  \<open>p\<close> of the new block; the block keeps the words of the old one as far as it reaches, and
  its other words hold whatever the memory held before, \<open>fresh\<close>. A null \<open>ptr\<close> has no old
  block (\<^verbatim>\<open>realloc(nullptr, n)\<close> is \<^verbatim>\<open>malloc(n)\<close>), and neither has a pointer that addresses no
  live block. To a request of 0 bytes the library may also answer by freeing the block and
  returning the null pointer, as glibc does: that is \<open>Freed\<close>. The sizes that \<^verbatim>\<open>resize\<close> asks
  for are multiples of 8 bytes, so a block is a list of words.
\<close>

datatype realloc_outcome =
  Declined
| Granted addr "nat \<Rightarrow> 64 word"
| Freed

definition regrown :: "64 word list \<Rightarrow> nat \<Rightarrow> (nat \<Rightarrow> 64 word) \<Rightarrow> 64 word list" where
  "regrown old n fresh = map (\<lambda>i. if i < length old then old ! i else fresh i) [0..<n]"

definition sys_realloc :: "realloc_outcome \<Rightarrow> addr \<Rightarrow> 64 word \<Rightarrow> memory \<Rightarrow> addr \<times> memory" where
  "sys_realloc outcome ptr n s =
     (let s1 = s\<lparr>realloc_requests := realloc_requests s + 1\<rparr>
      in case outcome of
           Declined \<Rightarrow> (nullptr, s1)
         | Granted p fresh \<Rightarrow>
             (let old = (case blocks s1 ptr of None \<Rightarrow> [] | Some ws \<Rightarrow> ws)
              in (p, s1\<lparr>blocks := ((blocks s1)(ptr := None))(p \<mapsto> regrown old (unat n div 8) fresh)\<rparr>))
         | Freed \<Rightarrow> (nullptr, if n = 0 then s1\<lparr>blocks := (blocks s1)(ptr := None)\<rparr> else s1))"

text \<open>
  \<^verbatim>\<open>calloc(nmemb, size)\<close>: when the library declines it returns the null pointer; when it
  grants, the new block at \<open>p\<close> holds zeros.
\<close>

datatype calloc_outcome =
  Calloc_Declined
| Calloc_Granted addr

definition sys_calloc :: "calloc_outcome \<Rightarrow> 64 word \<Rightarrow> 64 word \<Rightarrow> memory \<Rightarrow> addr \<times> memory" where
  "sys_calloc outcome nmemb n s =
     (let s1 = s\<lparr>calloc_requests := calloc_requests s + 1\<rparr>
      in case outcome of
           Calloc_Declined \<Rightarrow> (nullptr, s1)
         | Calloc_Granted p \<Rightarrow>
             (p, s1\<lparr>blocks := (blocks s1)(p \<mapsto> replicate (unat (nmemb * n) div 8) 0)\<rparr>))"

text \<open>\<^verbatim>\<open>std::free\<close>; freeing the null pointer does nothing.\<close>

definition sys_free :: "addr \<Rightarrow> memory \<Rightarrow> memory" where
  "sys_free ptr s = (if ptr = nullptr then s else s\<lparr>blocks := (blocks s)(ptr := None)\<rparr>)"

text \<open>
  \<^verbatim>\<open>hugepage_allocator::mm_realloc\<close>, \<^verbatim>\<open>hugepage_allocator::mm_alloc\<close> and
  \<^verbatim>\<open>hugepage_allocator::mm_free\<close> are declared in the header and defined elsewhere. The facade
  takes them as they come: they are parameters of the model, free to change the allocator
  and the blocks, and the first two free to throw.
\<close>

record arena_ops =
  mm_realloc :: "addr \<Rightarrow> 64 word \<Rightarrow> memory \<Rightarrow> (error + addr) \<times> memory"
  mm_alloc :: "64 word \<Rightarrow> memory \<Rightarrow> (error + addr) \<times> memory"
  mm_free :: "addr \<Rightarrow> memory \<Rightarrow> memory"

text \<open>
  \<^verbatim>\<open>hugepage_allocator::init\<close> (built where \<^verbatim>\<open>MAP_HUGETLB\<close> is defined). \<open>available\<close> is what
  \<^verbatim>\<open>determine_available_hugepage_memory()\<close>, declared only, returns. The members keep what was
  assigned to them before the \<^verbatim>\<open>throw\<close>.
\<close>

definition init :: "64 word \<Rightarrow> 64 word \<Rightarrow> addr \<Rightarrow> memory \<Rightarrow> (error + unit) \<times> memory" where
  "init size_in_bytes available mapped s =
     (let size_in_bytes' = (if size_in_bytes = 0 then available else size_in_bytes);
          s1 = s\<lparr>the_allocator := (the_allocator s)\<lparr>m_total_size := size_in_bytes'\<rparr>\<rparr>
      in case sys_mmap mapped (m_total_size (the_allocator s1)) s1 of
           (r, s2) \<Rightarrow>
             (let s3 = s2\<lparr>the_allocator := (the_allocator s2)\<lparr>m_base := r\<rparr>\<rparr>
              in if m_base (the_allocator s3) = MAP_FAILED then (Inl System_Error_ENOMEM, s3)
                 else
                   (let a4 = (the_allocator s3)\<lparr>m_top := m_base (the_allocator s3)\<rparr>;
                        a5 = a4\<lparr>m_first_block := m_base a4\<rparr>
                    in (Inr (), s3\<lparr>the_allocator := a5\<rparr>))))"

subsection \<open>memory_manager\<close>

text \<open>The build modelled is the one without \<^verbatim>\<open>MSVC_COMPILER\<close>.\<close>

definition alloc_mem ::
  "arena_ops \<Rightarrow> calloc_outcome \<Rightarrow> 64 word \<Rightarrow> memory \<Rightarrow> (error + addr) \<times> memory" where
  "alloc_mem ops outcome n s =
     (if hugepages (the_manager s) then mm_alloc ops n s
      else (case sys_calloc outcome n 1 s of (p, s1) \<Rightarrow> (Inr p, s1)))"

definition free_mem :: "arena_ops \<Rightarrow> addr \<Rightarrow> memory \<Rightarrow> memory" where
  "free_mem ops ptr s =
     (if hugepages (the_manager s) \<and> in_address_space (the_allocator s) ptr
      then mm_free ops ptr s
      else sys_free ptr s)"

definition realloc_mem ::
  "arena_ops \<Rightarrow> realloc_outcome \<Rightarrow> addr \<Rightarrow> 64 word \<Rightarrow> memory \<Rightarrow> (error + addr) \<times> memory" where
  "realloc_mem ops outcome ptr n s =
     (if hugepages (the_manager s) \<and> in_address_space (the_allocator s) ptr
      then mm_realloc ops ptr n s
      else
        (case sys_realloc outcome ptr n s of
           (temp, s1) \<Rightarrow> if temp = nullptr then (Inl Bad_Alloc, s1) else (Inr temp, s1)))"

definition use_hugepages :: "64 word \<Rightarrow> 64 word \<Rightarrow> addr \<Rightarrow> memory \<Rightarrow> (error + unit) \<times> memory" where
  "use_hugepages bytes available mapped s =
     (case init bytes available mapped s of
        (Inl e, s1) \<Rightarrow> (Inl e, s1)
      | (Inr u, s1) \<Rightarrow> (Inr (), s1\<lparr>the_manager := (the_manager s1)\<lparr>hugepages := True\<rparr>\<rparr>))"

subsection \<open>The vector that \<^verbatim>\<open>resize\<close> and \<^verbatim>\<open>clear\<close> work on\<close>

text \<open>
  The two members of \<^verbatim>\<open>t_vec\<close> that the header touches; \<^verbatim>\<open>size_type\<close> is \<^verbatim>\<open>uint64_t\<close>.
\<close>

record int_vector =
  m_size :: "64 word"
  m_data :: addr

text \<open>
  Modelled from the spec: the members \<^verbatim>\<open>bit_size()\<close> and \<^verbatim>\<open>capacity()\<close> of the vector are
  not part of the header. The vector "exposes a logical bit-length", and its capacity is the
  bit-length rounded "up to the next 64-bit-word boundary".
\<close>

definition bit_size :: "int_vector \<Rightarrow> 64 word" where
  "bit_size v = m_size v"

definition capacity :: "int_vector \<Rightarrow> 64 word" where
  "capacity v = push_bit 6 (drop_bit 6 (m_size v + 63))"

text \<open>Reading and writing the word \<^verbatim>\<open>p[i]\<close>; outside a live block neither has a meaning.\<close>

definition load_word :: "addr \<Rightarrow> nat \<Rightarrow> memory \<Rightarrow> error + 64 word" where
  "load_word p i s =
     (case blocks s p of
        None \<Rightarrow> Inl Undefined_Behaviour
      | Some ws \<Rightarrow> if i < length ws then Inr (ws ! i) else Inl Undefined_Behaviour)"

definition store_word :: "addr \<Rightarrow> nat \<Rightarrow> 64 word \<Rightarrow> memory \<Rightarrow> error + memory" where
  "store_word p i x s =
     (case blocks s p of
        None \<Rightarrow> Inl Undefined_Behaviour
      | Some ws \<Rightarrow>
          if i < length ws then Inr (s\<lparr>blocks := (blocks s)(p \<mapsto> ws[i := x])\<rparr>)
          else Inl Undefined_Behaviour)"

text \<open>
  Modelled from the spec: \<^verbatim>\<open>bits::write_int(word, x, offset, len)\<close> is not part of the header.
  \<^verbatim>\<open>resize\<close> "zero-fills" padding bits with it: it writes the low \<open>len\<close> bits of \<open>x\<close> into the
  bits \<open>offset, ..., offset + len - 1\<close> counted from the word \<open>p[i]\<close>, and leaves the other
  bits as they are; the bits from 64 on belong to the word \<open>p[i + 1]\<close>, which is touched only
  then.
\<close>

definition write_int :: "addr \<Rightarrow> nat \<Rightarrow> 64 word \<Rightarrow> 8 word \<Rightarrow> 8 word \<Rightarrow> memory \<Rightarrow> error + memory" where
  "write_int p i x offset len s =
     (let lo = unat offset; n = unat len; x' = x AND mask n
      in if lo + n \<le> 64 then
           (case load_word p i s of
              Inl e \<Rightarrow> Inl e
            | Inr w \<Rightarrow> store_word p i ((w AND NOT (push_bit lo (mask n))) OR push_bit lo x') s)
         else
           (case load_word p i s of
              Inl e \<Rightarrow> Inl e
            | Inr w \<Rightarrow>
                (case store_word p i ((w AND mask lo) OR push_bit lo x') s of
                   Inl e \<Rightarrow> Inl e
                 | Inr s1 \<Rightarrow>
                     (case load_word p (i + 1) s1 of
                        Inl e \<Rightarrow> Inl e
                      | Inr w1 \<Rightarrow>
                          store_word p (i + 1)
                            ((w1 AND NOT (mask (lo + n - 64))) OR drop_bit (64 - lo) x') s1))))"

subsection \<open>\<^verbatim>\<open>memory_manager::resize\<close> and \<^verbatim>\<open>memory_manager::clear\<close>\<close>

text \<open>
  \<open>size_in_bytes n\<close> is the expression \<^verbatim>\<open>((n + 63) >> 6) << 3\<close> of the locals
  \<^verbatim>\<open>old_size_in_bytes\<close>, \<^verbatim>\<open>new_size_in_bytes\<close> and \<^verbatim>\<open>size_in_bytes\<close>; \<open>allocated_bytes n\<close> is
  the expression \<^verbatim>\<open>((n + 64) >> 6) << 3\<close> of the local \<^verbatim>\<open>allocated_bytes\<close>.
\<close>

definition size_in_bytes :: "64 word \<Rightarrow> 64 word" where
  "size_in_bytes n = push_bit 3 (drop_bit 6 (n + 63))"

definition allocated_bytes :: "64 word \<Rightarrow> 64 word" where
  "allocated_bytes n = push_bit 3 (drop_bit 6 (n + 64))"

text \<open>The block \<^verbatim>\<open>// update and fill with 0s\<close> of \<^verbatim>\<open>resize\<close>, with the write that follows it.\<close>

definition fill_with_0s :: "int_vector \<Rightarrow> memory \<Rightarrow> error + memory" where
  "fill_with_0s v s =
     (case (if bit_size v < capacity v then
              (let len = (ucast (capacity v - bit_size v) :: 8 word);
                   in_word_offset = (ucast (bit_size v AND 0x3F) :: 8 word)
               in write_int (m_data v) (unat (drop_bit 6 (bit_size v))) 0 in_word_offset len s)
            else Inr s) of
        Inl e \<Rightarrow> Inl e
      | Inr s1 \<Rightarrow>
          if m_size v mod 64 = 0 then store_word (m_data v) (unat (m_size v div 64)) 0 s1
          else Inr s1)"

text \<open>
  The vector is passed by reference: it keeps what was assigned to it before a \<^verbatim>\<open>throw\<close>.
  \<open>outcome\<close> is the answer of the C library to the one \<^verbatim>\<open>realloc\<close> that the call may make,
  \<open>now\<close> the clock value that \<^verbatim>\<open>record\<close> reads.
\<close>

definition resize ::
  "arena_ops \<Rightarrow> realloc_outcome \<Rightarrow> time_point \<Rightarrow> int_vector \<Rightarrow> 64 word \<Rightarrow> memory \<Rightarrow> memory_monitor
     \<Rightarrow> (error + unit) \<times> int_vector \<times> memory \<times> memory_monitor" where
  "resize ops outcome now v n s mon =
     (let old_size_in_bytes = size_in_bytes (m_size v);
          new_size_in_bytes = size_in_bytes n;
          do_realloc = (old_size_in_bytes \<noteq> new_size_in_bytes);
          v1 = v\<lparr>m_size := n\<rparr>
      in if do_realloc \<or> m_data v1 = nullptr then
           (case realloc_mem ops outcome (m_data v1) (allocated_bytes n) s of
              (Inl e, s1) \<Rightarrow> (Inl e, v1, s1, mon)
            | (Inr p, s1) \<Rightarrow>
                (let v2 = v1\<lparr>m_data := p\<rparr>
                 in if allocated_bytes n \<noteq> 0 \<and> m_data v2 = nullptr then (Inl Bad_Alloc, v2, s1, mon)
                    else
                      (case fill_with_0s v2 s1 of
                         Inl e \<Rightarrow> (Inl e, v2, s1, mon)
                       | Inr s2 \<Rightarrow>
                           if do_realloc then
                             (case record_delta (new_size_in_bytes - old_size_in_bytes) now mon of
                                Inl e \<Rightarrow> (Inl e, v2, s2, mon)
                              | Inr mon1 \<Rightarrow> (Inr (), v2, s2, mon1))
                           else (Inr (), v2, s2, mon))))
         else (Inr (), v1, s, mon))"

definition clear ::
  "arena_ops \<Rightarrow> time_point \<Rightarrow> int_vector \<Rightarrow> memory \<Rightarrow> memory_monitor
     \<Rightarrow> (error + unit) \<times> int_vector \<times> memory \<times> memory_monitor" where
  "clear ops now v s mon =
     (let bytes = size_in_bytes (m_size v);
          s1 = free_mem ops (m_data v) s;
          v1 = v\<lparr>m_data := nullptr\<rparr>
      in if bytes \<noteq> 0 then
           (case record_delta (bytes * - 1) now mon of
              Inl e \<Rightarrow> (Inl e, v1, s1, mon)
            | Inr mon1 \<Rightarrow> (Inr (), v1, s1, mon1))
         else (Inr (), v1, s1, mon))"

subsection \<open>The invariant of the event stack\<close>

definition sentinel_ok :: "memory_monitor \<Rightarrow> bool" where
  "sentinel_ok m =
     (track_usage m \<and> event_stack m \<noteq> [] \<and> name (last (event_stack m)) = ''unknown'')"

subsection \<open>Concrete states and runs\<close>

text \<open>
  The scenario of the spec: \<^verbatim>\<open>start()\<close> at time 0, then scope "A" with \<^verbatim>\<open>record(+1000)\<close>,
  scope "B" with \<^verbatim>\<open>record(+500)\<close> inside it, and \<^verbatim>\<open>record(+200)\<close> after "B".
\<close>

definition started :: memory_monitor where
  "started = start 0 0 the_monitor"

definition scenario :: "stmt list" where
  "scenario =
     [Scope ''A'' 10
        [Record_Usage 1000 20, Scope ''B'' 30 [Record_Usage 500 40] 50, Record_Usage 200 60] 70]"

text \<open>
  A handle that outlives its session: scope "A" is entered at time 10, then \<^verbatim>\<open>stop()\<close> and a
  second \<^verbatim>\<open>start()\<close> at time 30 are called inside the scope, and the scope is left at time
  40.
\<close>

definition handle_A :: mm_event_proxy where
  "handle_A = fst (event ''A'' 10 started)"

definition second_session :: memory_monitor where
  "second_session = start 30 30 (stop (snd (event ''A'' 10 started)))"

definition left_late :: memory_monitor where
  "left_late = projr (mm_event_proxy_delete handle_A 40 second_session)"

text \<open>The monitor after \<^verbatim>\<open>start()\<close> at time 0 and \<^verbatim>\<open>record(5)\<close> 15 ms later.\<close>

definition after_15ms :: memory_monitor where
  "after_15ms = projr (record_delta 5 15000000 started)"

text \<open>The same run cut before "B" is left: \<open>in_B\<close> is the monitor there, \<open>handle_B\<close> the handle.\<close>

definition in_A :: memory_monitor where
  "in_A = projr (record_delta 1000 20 (snd (event ''A'' 10 started)))"

definition handle_B :: mm_event_proxy where
  "handle_B = fst (event ''B'' 30 in_A)"

definition in_B :: memory_monitor where
  "in_B = projr (record_delta 500 40 (snd (event ''B'' 30 in_A)))"

text \<open>
  A process that never called \<^verbatim>\<open>use_hugepages\<close>: the singletons hold their default member
  initialisers, no block is live. \<open>unused_ops\<close> stands for the member functions of the
  allocator, which such a process never reaches.
\<close>

definition initial_memory :: memory where
  "initial_memory =
     \<lparr>the_manager = \<lparr>hugepages = False\<rparr>,
      the_allocator =
        \<lparr>m_base = nullptr, m_first_block = nullptr, m_top = nullptr, m_total_size = 0\<rparr>,
      blocks = Map.empty, realloc_requests = 0, calloc_requests = 0, mmap_requests = 0\<rparr>"

definition unused_ops :: arena_ops where
  "unused_ops =
     \<lparr>mm_realloc = (\<lambda>p n s. (Inr nullptr, s)), mm_alloc = (\<lambda>n s. (Inr nullptr, s)),
      mm_free = (\<lambda>p s. s)\<rparr>"

text \<open>Memory that \<^verbatim>\<open>realloc\<close> hands out with every bit set.\<close>

definition stale :: "nat \<Rightarrow> 64 word" where
  "stale i = - 1"

text \<open>An empty vector, and the calls \<^verbatim>\<open>resize(v, 64)\<close> and \<^verbatim>\<open>resize(v, 65)\<close> on it.\<close>

definition v0 :: int_vector where
  "v0 = \<lparr>m_size = 0, m_data = nullptr\<rparr>"

definition made64 :: "(error + unit) \<times> int_vector \<times> memory \<times> memory_monitor" where
  "made64 = resize unused_ops (Granted 0x1000 stale) 0 v0 64 initial_memory the_monitor"

definition made65 :: "(error + unit) \<times> int_vector \<times> memory \<times> memory_monitor" where
  "made65 = resize unused_ops (Granted 0x1000 stale) 0 v0 65 initial_memory the_monitor"

text \<open>
  A vector of 64 bits: one word of data, 5, and the reserved word. \<open>grown\<close> is the call
  \<^verbatim>\<open>resize(v, 192)\<close> on it; \<open>cleared\<close> is \<^verbatim>\<open>clear(v)\<close> while the profiler tracks, and
  \<open>cleared_resized\<close> the call \<^verbatim>\<open>resize(v, 0)\<close> after it.
\<close>

definition v64 :: int_vector where
  "v64 = \<lparr>m_size = 64, m_data = 0x1000\<rparr>"

definition mem64 :: memory where
  "mem64 = initial_memory\<lparr>blocks := [0x1000 \<mapsto> [5, 0]]\<rparr>"

definition grown :: "(error + unit) \<times> int_vector \<times> memory \<times> memory_monitor" where
  "grown = resize unused_ops (Granted 0x2000 stale) 0 v64 192 mem64 the_monitor"

definition cleared :: "(error + unit) \<times> int_vector \<times> memory \<times> memory_monitor" where
  "cleared = clear unused_ops 1 v64 mem64 started"

definition cleared_resized :: "(error + unit) \<times> int_vector \<times> memory \<times> memory_monitor" where
  "cleared_resized =
     resize unused_ops (Granted 0x2000 stale) 2 (fst (snd cleared)) 0
       (fst (snd (snd cleared))) (snd (snd (snd cleared)))"

text \<open>
  A vector of 1 bit made from the empty one, and the call \<^verbatim>\<open>resize(v, 64)\<close> on it, answered
  by a library that would decline.
\<close>

definition made1 :: "(error + unit) \<times> int_vector \<times> memory \<times> memory_monitor" where
  "made1 = resize unused_ops (Granted 0x1000 stale) 0 v0 1 initial_memory the_monitor"

definition made1_64 :: "(error + unit) \<times> int_vector \<times> memory \<times> memory_monitor" where
  "made1_64 =
     resize unused_ops Declined 1 (fst (snd made1)) 64 (fst (snd (snd made1)))
       (snd (snd (snd made1)))"

text \<open>An arena of 4096 bytes at address 4096.\<close>

definition arena_4k :: hugepage_allocator where
  "arena_4k = \<lparr>m_base = 0x1000, m_first_block = 0x1000, m_top = 0x2000, m_total_size = 0x1000\<rparr>"

text \<open>
  A process in page-pool mode whose arena holds the block of the vector of 64 bits.
  \<open>arena_stub\<close> is an allocator that treats a request of 0 bytes as the C library may: for a
  block it frees the block and returns the null pointer, for the null pointer it hands out
  an empty block at address \<open>0x1800\<close>. \<open>wrapped\<close> is the call \<^verbatim>\<open>resize(v, L)\<close> with
  \<open>L = 2 ^ 64 - 1\<close> on that vector, \<open>wrapped_again\<close> the same call made once more.
\<close>

definition arena_memory :: memory where
  "arena_memory =
     initial_memory\<lparr>the_manager := \<lparr>hugepages = True\<rparr>, the_allocator := arena_4k,
       blocks := [0x1000 \<mapsto> [5, 0]]\<rparr>"

definition arena_stub :: arena_ops where
  "arena_stub =
     \<lparr>mm_realloc =
        (\<lambda>ptr n s.
           if ptr = nullptr then (Inr 0x1800, s\<lparr>blocks := (blocks s)(0x1800 \<mapsto> [])\<rparr>)
           else if n = 0 then (Inr nullptr, s\<lparr>blocks := (blocks s)(ptr := None)\<rparr>)
           else (Inr ptr, s)),
      mm_alloc = (\<lambda>n s. (Inr 0x1800, s\<lparr>blocks := (blocks s)(0x1800 \<mapsto> [])\<rparr>)),
      mm_free = (\<lambda>ptr s. s\<lparr>blocks := (blocks s)(ptr := None)\<rparr>)\<rparr>"

definition wrapped :: "(error + unit) \<times> int_vector \<times> memory \<times> memory_monitor" where
  "wrapped = resize arena_stub Declined 0 v64 (- 1) arena_memory the_monitor"

definition wrapped_again :: "(error + unit) \<times> int_vector \<times> memory \<times> memory_monitor" where
  "wrapped_again =
     resize arena_stub Declined 1 (fst (snd wrapped)) (- 1) (fst (snd (snd wrapped)))
       (snd (snd (snd wrapped)))"

section \<open>Properties of the usage profiler\<close>

subsection \<open>Auxiliary facts\<close>

lemma pop_all_empty: "pop_all es = []"
  by (induction es) simp_all

lemma idle_exec:
  "\<not> track_usage m \<Longrightarrow> exec s m = Inr m"
  "\<not> track_usage m \<Longrightarrow> exec_list ss m = Inr m"
  by (induction s m and ss m rule: exec_exec_list.induct)
     (simp_all add: record_delta_def event_def mm_event_proxy_new_def mm_event_proxy_delete_def)

text \<open>
  The test of \<^verbatim>\<open>record\<close>, read as a statement about the time that has passed: it is one
  whenever the sum of \<open>last_event\<close> and the granularity fits the signed 64-bit ticks.
\<close>

lemma granularity_test_elapsed:
  fixes l g cur :: "64 word"
  assumes "- (2 ^ 63) \<le> sint l + sint g * 1000000" and "sint l + sint g * 1000000 < 2 ^ 63"
  shows "l + g * 1000000 <s cur \<longleftrightarrow> sint l + sint g * 1000000 < sint cur"
proof -
  have "l + g * 1000000 = word_of_int (sint l + sint g * 1000000)"
    by simp
  then have "sint (l + g * 1000000) = sint (word_of_int (sint l + sint g * 1000000) :: 64 word)"
    by (rule arg_cong)
  also have "\<dots> = signed_take_bit 63 (sint l + sint g * 1000000)"
    by (simp only: sint_sbintrunc') simp
  also have "\<dots> = sint l + sint g * 1000000"
    using assms by (intro signed_take_bit_int_eq_self) simp_all
  finally show ?thesis
    by (simp only: word_sless_alt)
qed

lemma record_delta_names:
  assumes "track_usage m" and "event_stack m \<noteq> []"
  shows "\<exists>m'. record_delta d t m = Inr m' \<and> track_usage m' \<and>
           map name (event_stack m') = map name (event_stack m)"
  using assms
  by (cases "event_stack m") (simp_all add: record_delta_def Let_def emplace_back_def)

lemma event_push:
  assumes "track_usage m"
  shows "add (fst (event n t m)) \<and> track_usage (snd (event n t m)) \<and>
         event_stack (snd (event n t m)) = mm_event_new n (current_usage m) t # event_stack m"
  using assms by (simp add: event_def mm_event_proxy_new_def)

lemma delete_names:
  assumes "add p" and "track_usage m" and "event_stack m = cur # rest"
  shows "\<exists>m'. mm_event_proxy_delete p t m = Inr m' \<and> track_usage m' \<and>
           map name (event_stack m') = map name rest"
  using assms
  by (cases rest) (simp_all add: mm_event_proxy_delete_def Let_def emplace_back_def)

text \<open>
  While the profiler tracks and the stack is not empty, a block of calling code runs to its
  end, leaves the profiler tracking and leaves the names on the stack as they were.
\<close>

lemma exec_names:
  "track_usage m \<Longrightarrow> event_stack m \<noteq> [] \<Longrightarrow>
     \<exists>m'. exec s m = Inr m' \<and> track_usage m' \<and>
       map name (event_stack m') = map name (event_stack m)"
  "track_usage m \<Longrightarrow> event_stack m \<noteq> [] \<Longrightarrow>
     \<exists>m'. exec_list ss m = Inr m' \<and> track_usage m' \<and>
       map name (event_stack m') = map name (event_stack m)"
proof (induction s m and ss m rule: exec_exec_list.induct)
  case (1 d t m)
  then show ?case by (simp add: record_delta_names)
next
  case (2 n t0 body t1 m)
  obtain p m1 where ev: "event n t0 m = (p, m1)" by (cases "event n t0 m")
  from event_push [OF "2.prems"(1), of n t0] ev
  have p: "add p" and tr1: "track_usage m1"
    and s1: "event_stack m1 = mm_event_new n (current_usage m) t0 # event_stack m"
    by simp_all
  from s1 have ne1: "event_stack m1 \<noteq> []" by simp
  from "2.IH" [OF ev [symmetric] tr1 ne1]
  obtain m2 where b: "exec_list body m1 = Inr m2" and tr2: "track_usage m2"
    and s2: "map name (event_stack m2) = map name (event_stack m1)"
    by auto
  from s2 s1 obtain cur rest where c: "event_stack m2 = cur # rest"
    and r: "map name rest = map name (event_stack m)"
    by (cases "event_stack m2") auto
  from delete_names [OF p tr2 c, of t1] obtain m3
    where "mm_event_proxy_delete p t1 m2 = Inr m3" "track_usage m3"
      "map name (event_stack m3) = map name rest"
    by blast
  with ev b r show ?case by simp
next
  case (3 m)
  then show ?case by simp
next
  case (4 s ss m)
  from "4.IH"(1) [OF "4.prems"] obtain m1 where s: "exec s m = Inr m1" and t: "track_usage m1"
    and n: "map name (event_stack m1) = map name (event_stack m)"
    by blast
  from n "4.prems"(2) have ne: "event_stack m1 \<noteq> []" by (cases "event_stack m1") auto
  from "4.IH"(2) [OF s t ne] s n show ?case by auto
qed

lemma sentinel_ok_names:
  assumes "sentinel_ok m" and "track_usage m'"
    and "map name (event_stack m') = map name (event_stack m)"
  shows "sentinel_ok m'"
proof -
  from assms(1) have ne: "event_stack m \<noteq> []" and u: "name (last (event_stack m)) = ''unknown''"
    by (simp_all add: sentinel_ok_def)
  from ne assms(3) have ne': "event_stack m' \<noteq> []" by (cases "event_stack m'") auto
  have "name (last (event_stack m')) = last (map name (event_stack m'))"
    using ne' by (simp add: last_map)
  also have "\<dots> = name (last (event_stack m))"
    using ne by (simp add: assms(3) last_map)
  finally show ?thesis using assms(2) ne' u by (simp add: sentinel_ok_def)
qed

lemma started_eq:
  "started = \<lparr>log_granularity = 20, current_usage = 0, track_usage = True,
     completed_events = [],
     event_stack = [\<lparr>name = ''unknown'', allocations = [\<lparr>timestamp = 0, usage = 0\<rparr>]\<rparr>],
     start_log = 0, last_event = 0\<rparr>"
  by (simp add: started_def start_def the_monitor_def mm_event_new_def)

lemma in_A_eq:
  "in_A = \<lparr>log_granularity = 20, current_usage = 1000, track_usage = True,
     completed_events = [],
     event_stack = [\<lparr>name = ''A'', allocations = [\<lparr>timestamp = 20, usage = 1000\<rparr>]\<rparr>,
                    \<lparr>name = ''unknown'', allocations = [\<lparr>timestamp = 0, usage = 0\<rparr>]\<rparr>],
     start_log = 0, last_event = 0\<rparr>"
  by (simp add: in_A_def started_eq event_def mm_event_proxy_new_def mm_event_new_def
      record_delta_def)

lemma in_B_eq:
  "in_B = \<lparr>log_granularity = 20, current_usage = 1500, track_usage = True,
     completed_events = [],
     event_stack = [\<lparr>name = ''B'', allocations = [\<lparr>timestamp = 40, usage = 1500\<rparr>]\<rparr>,
                    \<lparr>name = ''A'', allocations = [\<lparr>timestamp = 20, usage = 1000\<rparr>]\<rparr>,
                    \<lparr>name = ''unknown'', allocations = [\<lparr>timestamp = 0, usage = 0\<rparr>]\<rparr>],
     start_log = 0, last_event = 0\<rparr>"
  by (simp add: in_B_def in_A_eq event_def mm_event_proxy_new_def mm_event_new_def
      record_delta_def)

lemma handle_B_eq: "handle_B = \<lparr>add = True\<rparr>"
  by (simp add: handle_B_def in_A_eq event_def mm_event_proxy_new_def)

subsection \<open>Claims\<close>

text \<open>
  C9. Before any \<^verbatim>\<open>start()\<close> the monitor holds its initial members, whatever granularity was
  set and whatever scopes and \<^verbatim>\<open>record\<close> calls the program went through: they all leave the
  idle monitor as it is. No event is completed, and \<^verbatim>\<open>peak()\<close> returns 0, as it does in every
  state without completed events.
\<close>

theorem peak_before_any_cycle:
  "exec_list ps (granularity ms the_monitor) = Inr (granularity ms the_monitor) \<and>
   completed_events (granularity ms the_monitor) = [] \<and>
   peak (granularity ms the_monitor) = 0 \<and>
   peak (m\<lparr>completed_events := []\<rparr>) = 0"
  by (simp add: idle_exec granularity_def the_monitor_def peak_def)

text \<open>
  C6, amended. \<^verbatim>\<open>start()\<close> leaves the profiler tracking with a stack that is not empty and has
  the event "unknown" at its bottom. From a state like that, making a handle (the push),
  \<^verbatim>\<open>record\<close>, and every block of code whose scopes are well nested (each handle that the
  block deletes was made in the block, and no \<^verbatim>\<open>start()\<close> or \<^verbatim>\<open>stop()\<close> is called inside a
  scope) run without error and end in a state like that.
\<close>

theorem sentinel_invariant:
  "sentinel_ok (start now now' m0) \<and>
   (sentinel_ok m \<longrightarrow>
      sentinel_ok (snd (event n t m)) \<and>
      (\<exists>m'. record_delta d t m = Inr m' \<and> sentinel_ok m') \<and>
      (\<exists>m'. exec_list ps m = Inr m' \<and> sentinel_ok m'))"
proof (intro conjI impI)
  show "sentinel_ok (start now now' m0)"
    by (simp add: sentinel_ok_def start_def Let_def pop_all_empty mm_event_new_def)
next
  assume ok: "sentinel_ok m"
  then have tr: "track_usage m" and ne: "event_stack m \<noteq> []"
    by (simp_all add: sentinel_ok_def)
  from ok event_push [OF tr, of n t] show "sentinel_ok (snd (event n t m))"
    by (simp add: sentinel_ok_def)
  from record_delta_names [OF tr ne, of d t] ok
  show "\<exists>m'. record_delta d t m = Inr m' \<and> sentinel_ok m'"
    by (blast intro: sentinel_ok_names)
  from exec_names(2) [OF tr ne, of ps] ok
  show "\<exists>m'. exec_list ps m = Inr m' \<and> sentinel_ok m'"
    by (blast intro: sentinel_ok_names)
qed

theorem sentinel_invariant_witness:
  "sentinel_ok started \<and>
   sentinel_ok (snd (event ''A'' 10 started)) \<and>
   (\<exists>m'. record_delta 1000 10 started = Inr m' \<and> sentinel_ok m') \<and>
   (\<exists>m'. exec_list scenario started = Inr m' \<and> sentinel_ok m')"
proof -
  have ok: "sentinel_ok started"
    using sentinel_invariant [of 0 0 the_monitor] by (simp add: started_def)
  with sentinel_invariant [of 0 0 the_monitor started "''A''" 10 1000 scenario]
  show ?thesis by simp
qed

text \<open>
  C6 as stated fails for a handle that outlives its session. After the second \<^verbatim>\<open>start()\<close> the
  stack holds the event "unknown" alone; leaving scope "A" then deletes the handle made in
  the first session, which takes "unknown" off. The profiler tracks with an empty stack, and
  the next \<^verbatim>\<open>record\<close> calls \<^verbatim>\<open>top()\<close> on it.
\<close>

theorem sentinel_counterexample:
  "add handle_A \<and> sentinel_ok second_session \<and>
   map name (event_stack second_session) = [''unknown''] \<and>
   mm_event_proxy_delete handle_A 40 second_session = Inr left_late \<and>
   track_usage left_late \<and> event_stack left_late = [] \<and> \<not> sentinel_ok left_late \<and>
   record_delta 1 50 left_late = Inl Undefined_Behaviour"
proof -
  have h: "handle_A = \<lparr>add = True\<rparr>"
    by (simp add: handle_A_def started_eq event_def mm_event_proxy_new_def)
  have s2: "second_session =
      \<lparr>log_granularity = 20, current_usage = 0, track_usage = True, completed_events = [],
       event_stack = [\<lparr>name = ''unknown'', allocations = [\<lparr>timestamp = 30, usage = 0\<rparr>]\<rparr>],
       start_log = 30, last_event = 30\<rparr>"
    by (simp add: second_session_def started_eq event_def mm_event_proxy_new_def
        mm_event_new_def stop_def start_def)
  have d: "mm_event_proxy_delete handle_A 40 second_session =
      Inr (second_session\<lparr>completed_events :=
             [\<lparr>name = ''unknown'', allocations =
                 [\<lparr>timestamp = 30, usage = 0\<rparr>, \<lparr>timestamp = 40, usage = 0\<rparr>]\<rparr>],
           event_stack := []\<rparr>)"
    by (simp add: h s2 mm_event_proxy_delete_def emplace_back_def)
  then have l: "left_late = second_session\<lparr>completed_events :=
             [\<lparr>name = ''unknown'', allocations =
                 [\<lparr>timestamp = 30, usage = 0\<rparr>, \<lparr>timestamp = 40, usage = 0\<rparr>]\<rparr>],
           event_stack := []\<rparr>"
    by (simp add: left_late_def)
  show ?thesis
    by (simp add: d l [symmetric]) (simp add: h l s2 sentinel_ok_def record_delta_def word_sless_alt)
qed

text \<open>
  C5, amended. While the profiler tracks and an event is on the stack, \<^verbatim>\<open>record(delta)\<close> at
  time \<open>cur\<close> does one of two things, by the test \<^verbatim>\<open>last_event + log_granularity < cur\<close> that
  the code takes in signed 64-bit nanosecond ticks; \<open>last_event\<close> is the time of \<^verbatim>\<open>start()\<close> or
  of the last call that appended. If the test holds, it appends two samples to the top
  event, the first with the usage before and the second with the usage after the delta, both
  at \<open>cur\<close>, and sets \<open>last_event\<close> to \<open>cur\<close>. If the test fails and the top event has a
  sample, it overwrites the last sample of the top event with \<open>cur\<close> and the usage after the
  delta, and leaves \<open>last_event\<close> as it is. Where the sum of \<open>last_event\<close> and the granularity
  fits the signed 64-bit ticks, the test holds exactly when more than the granularity has
  passed since \<open>last_event\<close>.
\<close>

theorem record_effect:
  assumes "track_usage m" and "event_stack m = tos # rest"
  shows "(last_event m + log_granularity m * 1000000 <s cur \<longrightarrow>
            record_delta d cur m =
              Inr (m\<lparr>current_usage := current_usage m + d,
                     event_stack :=
                       tos\<lparr>allocations := allocations tos @
                            [\<lparr>timestamp = cur, usage = current_usage m\<rparr>,
                             \<lparr>timestamp = cur, usage = current_usage m + d\<rparr>]\<rparr> # rest,
                     last_event := cur\<rparr>)) \<and>
         (\<not> last_event m + log_granularity m * 1000000 <s cur \<and> allocations tos \<noteq> [] \<longrightarrow>
            record_delta d cur m =
              Inr (m\<lparr>current_usage := current_usage m + d,
                     event_stack :=
                       tos\<lparr>allocations := butlast (allocations tos) @
                            [\<lparr>timestamp = cur, usage = current_usage m + d\<rparr>]\<rparr> # rest\<rparr>)) \<and>
         (- (2 ^ 63) \<le> sint (last_event m) + sint (log_granularity m) * 1000000 \<and>
          sint (last_event m) + sint (log_granularity m) * 1000000 < 2 ^ 63 \<longrightarrow>
            (last_event m + log_granularity m * 1000000 <s cur) =
              (sint (log_granularity m) * 1000000 < sint cur - sint (last_event m)))"
proof -
  have "(last_event m + log_granularity m * 1000000 <s cur) =
      (sint (log_granularity m) * 1000000 < sint cur - sint (last_event m))"
    if "- (2 ^ 63) \<le> sint (last_event m) + sint (log_granularity m) * 1000000"
      and "sint (last_event m) + sint (log_granularity m) * 1000000 < 2 ^ 63"
    using granularity_test_elapsed [OF that, of cur] by auto
  with assms show ?thesis
    by (simp add: record_delta_def Let_def emplace_back_def)
qed

theorem record_effect_witness:
  "record_delta 5 20000001 started =
     Inr (started\<lparr>current_usage := 5,
            event_stack := [\<lparr>name = ''unknown'', allocations =
               [\<lparr>timestamp = 0, usage = 0\<rparr>, \<lparr>timestamp = 20000001, usage = 0\<rparr>,
                \<lparr>timestamp = 20000001, usage = 5\<rparr>]\<rparr>],
            last_event := 20000001\<rparr>) \<and>
   record_delta 5 7 started =
     Inr (started\<lparr>current_usage := 5,
            event_stack := [\<lparr>name = ''unknown'', allocations = [\<lparr>timestamp = 7, usage = 5\<rparr>]\<rparr>]\<rparr>) \<and>
   sint (log_granularity started) * 1000000 < sint (20000001 :: 64 word) - sint (last_event started) \<and>
   \<not> sint (log_granularity started) * 1000000 < sint (7 :: 64 word) - sint (last_event started)"
  using record_effect [of started "\<lparr>name = ''unknown'', allocations = [\<lparr>timestamp = 0, usage = 0\<rparr>]\<rparr>"
      "[]" 20000001 5]
    record_effect [of started "\<lparr>name = ''unknown'', allocations = [\<lparr>timestamp = 0, usage = 0\<rparr>]\<rparr>"
      "[]" 7 5]
  by (simp add: started_eq)

text \<open>
  C5 as stated fails in two ways, with the granularity of 20 ms. Exactly 20 ms after
  \<^verbatim>\<open>start()\<close> it is not the case that less than the granularity has passed, and yet
  \<^verbatim>\<open>record(5)\<close> overwrites the one sample of the top event and appends nothing. And a sample
  that was overwritten does not count as the last one: after \<^verbatim>\<open>record(5)\<close> at 15 ms, which
  overwrites, \<^verbatim>\<open>record(7)\<close> at 30 ms comes less than the granularity after that sample and yet
  appends two samples, since \<open>last_event\<close> is still the time of \<^verbatim>\<open>start()\<close>.
\<close>

theorem record_boundary_counterexample:
  "track_usage started \<and>
   \<not> (20000000 - last_event started <s log_granularity started * 1000000) \<and>
   \<not> (last_event started + log_granularity started * 1000000 <s 20000000) \<and>
   map allocations (event_stack started) = [[\<lparr>timestamp = 0, usage = 0\<rparr>]] \<and>
   map allocations (event_stack (projr (record_delta 5 20000000 started))) =
     [[\<lparr>timestamp = 20000000, usage = 5\<rparr>]] \<and>
   track_usage after_15ms \<and>
   map allocations (event_stack after_15ms) = [[\<lparr>timestamp = 15000000, usage = 5\<rparr>]] \<and>
   30000000 - timestamp (last (allocations (hd (event_stack after_15ms))))
     <s log_granularity after_15ms * 1000000 \<and>
   map allocations (event_stack (projr (record_delta 7 30000000 after_15ms))) =
     [[\<lparr>timestamp = 15000000, usage = 5\<rparr>, \<lparr>timestamp = 30000000, usage = 5\<rparr>,
       \<lparr>timestamp = 30000000, usage = 12\<rparr>]]"
  by (simp add: after_15ms_def started_eq record_delta_def emplace_back_def)

text \<open>
  C2, amended. Deleting a handle that was made while the profiler tracked, with an event on
  the stack, appends a last sample with the current usage to that event, moves it to the end
  of the completed events, and takes it off the stack. If the stack is not empty then and
  its new top has a sample, the new top gets one more sample at the same time, and its usage
  is the usage of the last sample the new top had before, not the current usage.
\<close>

theorem pop_event_effect:
  assumes "add p" and "event_stack m = cur # rest"
  shows "\<exists>m'. mm_event_proxy_delete p t m = Inr m' \<and>
           completed_events m' = completed_events m @
             [cur\<lparr>allocations := allocations cur @ [\<lparr>timestamp = t, usage = current_usage m\<rparr>]\<rparr>] \<and>
           current_usage m' = current_usage m \<and>
           (rest = [] \<longrightarrow> event_stack m' = []) \<and>
           (\<forall>tos below. rest = tos # below \<and> allocations tos \<noteq> [] \<longrightarrow>
              event_stack m' =
                tos\<lparr>allocations := allocations tos @
                     [\<lparr>timestamp = t, usage = usage (last (allocations tos))\<rparr>]\<rparr> # below)"
  using assms
  by (cases rest) (simp_all add: mm_event_proxy_delete_def Let_def emplace_back_def)

theorem pop_event_effect_witness:
  "add handle_B \<and>
   event_stack in_B =
     \<lparr>name = ''B'', allocations = [\<lparr>timestamp = 40, usage = 1500\<rparr>]\<rparr> #
     [\<lparr>name = ''A'', allocations = [\<lparr>timestamp = 20, usage = 1000\<rparr>]\<rparr>,
      \<lparr>name = ''unknown'', allocations = [\<lparr>timestamp = 0, usage = 0\<rparr>]\<rparr>] \<and>
   (\<exists>m'. mm_event_proxy_delete handle_B 50 in_B = Inr m' \<and>
      completed_events m' =
        [\<lparr>name = ''B'', allocations =
            [\<lparr>timestamp = 40, usage = 1500\<rparr>, \<lparr>timestamp = 50, usage = 1500\<rparr>]\<rparr>] \<and>
      event_stack m' =
        [\<lparr>name = ''A'', allocations =
            [\<lparr>timestamp = 20, usage = 1000\<rparr>, \<lparr>timestamp = 50, usage = 1000\<rparr>]\<rparr>,
         \<lparr>name = ''unknown'', allocations = [\<lparr>timestamp = 0, usage = 0\<rparr>]\<rparr>])"
proof -
  have h: "add handle_B"
    by (simp add: handle_B_eq)
  have s: "event_stack in_B =
      \<lparr>name = ''B'', allocations = [\<lparr>timestamp = 40, usage = 1500\<rparr>]\<rparr> #
      [\<lparr>name = ''A'', allocations = [\<lparr>timestamp = 20, usage = 1000\<rparr>]\<rparr>,
       \<lparr>name = ''unknown'', allocations = [\<lparr>timestamp = 0, usage = 0\<rparr>]\<rparr>]"
    by (simp add: in_B_eq)
  have c: "completed_events in_B = []" "current_usage in_B = 1500"
    by (simp_all add: in_B_eq)
  from pop_event_effect [OF h s, of 50] h s c show ?thesis by auto
qed

text \<open>
  C2 as stated fails in the scenario of the spec. When "B" is left at time 50 the current
  usage is 1500, and that is the usage of the last sample of "B"; the sample that the new
  top "A" gets has usage 1000.
\<close>

theorem pop_event_counterexample:
  "add handle_B \<and> track_usage in_B \<and> current_usage in_B = 1500 \<and>
   map name (event_stack in_B) = [''B'', ''A'', ''unknown''] \<and>
   map name (event_stack (projr (mm_event_proxy_delete handle_B 50 in_B))) =
     [''A'', ''unknown''] \<and>
   last (allocations (hd (event_stack (projr (mm_event_proxy_delete handle_B 50 in_B))))) =
     \<lparr>timestamp = 50, usage = 1000\<rparr>"
  by (simp add: handle_B_eq in_B_eq mm_event_proxy_delete_def emplace_back_def)

section \<open>Properties of the allocator and of the facade\<close>

subsection \<open>Rounding to words\<close>

lemma split_64:
  fixes a :: nat
  obtains q r where "a = 64 * q + r" and "r < 64" and "a div 64 = q" and "a mod 64 = r"
proof
  show "a = 64 * (a div 64) + a mod 64" by simp
  show "a mod 64 < 64" by simp
qed simp_all

lemma div_64_eqI:
  fixes m q :: nat
  assumes "64 * q \<le> m" and "m < 64 * q + 64"
  shows "m div 64 = q"
  by (rule div_nat_eqI) (use assms in simp_all)

lemma round_up_exact:
  fixes a :: nat
  assumes "a mod 64 = 0"
  shows "(a + 63) div 64 = a div 64"
proof -
  obtain q r where a: "a = 64 * q + r" "r < 64" "a div 64 = q" "a mod 64 = r"
    by (rule split_64)
  with assms have "r = 0" by simp
  with a have "64 * q \<le> a + 63" "a + 63 < 64 * q + 64" by simp_all
  then have "(a + 63) div 64 = q" by (rule div_64_eqI)
  with a show ?thesis by simp
qed

lemma round_up_inexact:
  fixes a :: nat
  assumes "a mod 64 \<noteq> 0"
  shows "(a + 63) div 64 = a div 64 + 1"
proof -
  obtain q r where a: "a = 64 * q + r" "r < 64" "a div 64 = q" "a mod 64 = r"
    by (rule split_64)
  with assms have "0 < r" by simp
  with a have "64 * (q + 1) \<le> a + 63" "a + 63 < 64 * (q + 1) + 64" by simp_all
  then have "(a + 63) div 64 = q + 1" by (rule div_64_eqI)
  with a show ?thesis by simp
qed

lemma pad_length:
  fixes a :: nat
  shows "64 * (a div 64 + 1) - a = 64 - a mod 64"
proof -
  obtain q r where a: "a = 64 * q + r" "r < 64" "a div 64 = q" "a mod 64 = r"
    by (rule split_64)
  then have "64 * (q + 1) - a = 64 - r" by simp
  with a show ?thesis by simp
qed

lemma bit_position:
  fixes a i :: nat
  assumes "a \<le> i" and "i < 64 * (a div 64 + 1)"
  shows "i div 64 = a div 64" and "a mod 64 \<le> i mod 64"
proof -
  obtain q r where a: "a = 64 * q + r" "r < 64" "a div 64 = q" "a mod 64 = r"
    by (rule split_64)
  obtain q' r' where i: "i = 64 * q' + r'" "r' < 64" "i div 64 = q'" "i mod 64 = r'"
    by (rule split_64)
  from assms a have "64 * q \<le> i" "i < 64 * q + 64" by simp_all
  then have d: "i div 64 = q" by (rule div_64_eqI)
  with a show "i div 64 = a div 64" by simp
  from d i have "q' = q" by simp
  with i assms(1) a have "r \<le> r'" by simp
  with a i show "a mod 64 \<le> i mod 64" by simp
qed

lemma below_exact:
  fixes a i :: nat
  assumes "i < a" and "a mod 64 = 0"
  shows "i div 64 \<noteq> a div 64"
proof -
  obtain q r where a: "a = 64 * q + r" "r < 64" "a div 64 = q" "a mod 64 = r"
    by (rule split_64)
  obtain q' r' where i: "i = 64 * q' + r'" "r' < 64" "i div 64 = q'" "i mod 64 = r'"
    by (rule split_64)
  from assms a i have "64 * q' + r' < 64 * q" by simp
  then have "q' \<noteq> q" by auto
  with a i show ?thesis by simp
qed

lemma below_same_word:
  fixes a i :: nat
  assumes "i < a" and "i div 64 = a div 64"
  shows "i mod 64 < a mod 64"
proof -
  obtain q r where a: "a = 64 * q + r" "r < 64" "a div 64 = q" "a mod 64 = r"
    by (rule split_64)
  obtain q' r' where i: "i = 64 * q' + r'" "r' < 64" "i div 64 = q'" "i mod 64 = r'"
    by (rule split_64)
  from assms a i have "r' < r" by simp
  with a i show ?thesis by simp
qed

subsection \<open>Word arithmetic of the byte counts\<close>

lemma unat_plus_64:
  fixes L :: "64 word"
  assumes "unat L + 64 < 2 ^ 64"
  shows "unat (L + 64) = unat L + 64" "unat (L + 63) = unat L + 63"
  using assms by (simp_all add: unat_word_ariths)

lemma unat_drop_6: "unat (drop_bit 6 (x :: 64 word)) = unat x div 64"
  by (simp add: drop_bit_eq_div unat_div)

lemma unat_push_small:
  fixes y :: "64 word"
  assumes "2 ^ k * unat y < (2 :: nat) ^ 64"
  shows "unat (push_bit k y) = 2 ^ k * unat y"
proof -
  have "unat (push_bit k y) = take_bit 64 (push_bit k (unat y))"
    by (simp add: unsigned_push_bit_eq)
  also have "\<dots> = (2 ^ k * unat y) mod 2 ^ 64"
    by (simp add: push_bit_eq_mult take_bit_eq_mod mult.commute)
  also have "\<dots> = 2 ^ k * unat y"
    using assms by simp
  finally show ?thesis .
qed

lemma unat_allocated_bytes:
  assumes "unat L + 64 < 2 ^ 64"
  shows "unat (allocated_bytes L) = 8 * (unat L div 64 + 1)"
proof -
  have d: "unat (drop_bit 6 (L + 64)) = unat L div 64 + 1"
    using assms by (simp add: unat_drop_6 unat_plus_64)
  have "2 ^ 3 * unat (drop_bit 6 (L + 64)) < (2 :: nat) ^ 64"
    using assms by (simp only: d) simp
  from unat_push_small [OF this] show ?thesis
    by (simp only: allocated_bytes_def d) simp
qed

lemma allocated_bytes_nonzero:
  assumes "unat L + 64 < 2 ^ 64"
  shows "allocated_bytes L \<noteq> 0"
proof
  assume "allocated_bytes L = 0"
  then have "unat (allocated_bytes L) = 0" by simp
  with unat_allocated_bytes [OF assms] show False by simp
qed

lemma unat_capacity:
  assumes "unat (m_size v) + 64 < 2 ^ 64"
  shows "unat (capacity v) = 64 * ((unat (m_size v) + 63) div 64)"
proof -
  have d: "unat (drop_bit 6 (m_size v + 63)) = (unat (m_size v) + 63) div 64"
    using assms by (simp only: unat_drop_6 unat_plus_64)
  have "2 ^ 6 * unat (drop_bit 6 (m_size v + 63)) < (2 :: nat) ^ 64"
    using assms by (simp only: d) simp
  from unat_push_small [OF this] show ?thesis
    by (simp only: capacity_def d) simp
qed

lemma unat_mod_64: "unat ((x :: 64 word) mod 64) = unat x mod 64"
  by (simp add: unat_mod)

lemma unat_div_64: "unat ((x :: 64 word) div 64) = unat x div 64"
  by (simp add: unat_div)

lemma unat_and_3F: "unat ((x :: 64 word) AND 0x3F) = unat x mod 64"
proof -
  have "(0x3F :: 64 word) = mask 6" by (simp add: mask_eq_exp_minus_1)
  then have "x AND 0x3F = take_bit 6 x" by (simp only: take_bit_eq_mask)
  then show ?thesis by (simp add: unsigned_take_bit_eq take_bit_eq_mod unat_mod)
qed

lemma mod_64_eq_0: "((x :: 64 word) mod 64 = 0) = (unat x mod 64 = 0)"
  by (metis unat_mod_64 unat_0_iff)

lemma unat_ucast_8:
  fixes x :: "64 word"
  assumes "unat x < 256"
  shows "unat (ucast x :: 8 word) = unat x"
  using assms by (simp add: unsigned_ucast_eq take_bit_eq_mod)

subsection \<open>Writes into a block\<close>

lemma store_word_Inr:
  assumes "store_word p i x s = Inr s'"
  shows "\<exists>ws. blocks s p = Some ws \<and> i < length ws \<and>
           s' = s\<lparr>blocks := (blocks s)(p \<mapsto> ws[i := x])\<rparr>"
  using assms by (auto simp: store_word_def split: option.splits if_splits)

lemma write_int_one_word:
  assumes "unat offset + unat len \<le> 64" and "write_int p i x offset len s = Inr s'"
  shows "\<exists>ws. blocks s p = Some ws \<and> i < length ws \<and>
           s' = s\<lparr>blocks := (blocks s)(p \<mapsto>
                  ws[i := (ws ! i AND NOT (push_bit (unat offset) (mask (unat len)))) OR
                          push_bit (unat offset) (x AND mask (unat len))])\<rparr>"
  using assms
  by (auto simp: write_int_def Let_def load_word_def store_word_def split: option.splits if_splits)

lemma cleared_bits:
  fixes w :: "64 word"
  assumes "lo + n = 64" and "lo \<le> j" and "j < 64"
  shows "\<not> bit ((w AND NOT (push_bit lo (mask n))) OR push_bit lo (0 AND mask n)) j"
  using assms by (auto simp: bit_simps)

lemma kept_bits:
  fixes w :: "64 word"
  assumes "lo + n = 64" and "j < lo"
  shows "bit ((w AND NOT (push_bit lo (mask n))) OR push_bit lo (0 AND mask n)) j = bit w j"
  using assms by (auto simp: bit_simps)

text \<open>
  The arguments of the zero fill. When \<open>m_size\<close> is a multiple of 64 the capacity is
  \<open>m_size\<close> and \<^verbatim>\<open>write_int\<close> is not called; otherwise it is called with the offset
  \<open>m_size mod 64\<close> and the length \<open>64 - m_size mod 64\<close>.
\<close>

lemma no_padding:
  assumes nw: "unat (m_size v) + 64 < 2 ^ 64" and z: "unat (m_size v) mod 64 = 0"
  shows "\<not> bit_size v < capacity v" and "m_size v mod 64 = 0"
proof -
  from z have "(unat (m_size v) + 63) div 64 = unat (m_size v) div 64"
    by (rule round_up_exact)
  with z have "unat (capacity v) = unat (m_size v)"
    by (simp add: unat_capacity [OF nw])
  then show "\<not> bit_size v < capacity v"
    by (simp add: bit_size_def word_less_nat_alt)
  from z show "m_size v mod 64 = 0"
    by (simp add: mod_64_eq_0)
qed

lemma padding_args:
  assumes nw: "unat (m_size v) + 64 < 2 ^ 64" and nz: "unat (m_size v) mod 64 \<noteq> 0"
  shows "bit_size v < capacity v" and "m_size v mod 64 \<noteq> 0"
    and "unat (ucast (bit_size v AND 0x3F) :: 8 word) = unat (m_size v) mod 64"
    and "unat (ucast (capacity v - bit_size v) :: 8 word) = 64 - unat (m_size v) mod 64"
proof -
  have cap: "unat (capacity v) = 64 * (unat (m_size v) div 64 + 1)"
    by (simp add: unat_capacity [OF nw] round_up_inexact [OF nz])
  then show lt: "bit_size v < capacity v"
    using nz by (simp add: bit_size_def word_less_nat_alt)
  from nz show "m_size v mod 64 \<noteq> 0"
    by (simp add: mod_64_eq_0)
  show "unat (ucast (bit_size v AND 0x3F) :: 8 word) = unat (m_size v) mod 64"
    by (simp add: unat_ucast_8 unat_and_3F bit_size_def)
  have "unat (capacity v - bit_size v) = unat (capacity v) - unat (m_size v)"
    using lt by (simp add: unat_sub bit_size_def)
  also have "\<dots> = 64 - unat (m_size v) mod 64"
    by (simp only: cap pad_length)
  finally show "unat (ucast (capacity v - bit_size v) :: 8 word) = 64 - unat (m_size v) mod 64"
    by (simp add: unat_ucast_8)
qed

text \<open>
  What the zero fill of \<^verbatim>\<open>resize\<close> leaves in the word with index \<open>m_size div 64\<close>: the bits from
  \<open>m_size mod 64\<close> on are zero. The bits of the block below \<open>m_size\<close> are as they were.
\<close>

lemma fill_with_0s_zero:
  assumes nw: "unat (m_size v) + 64 < 2 ^ 64" and f: "fill_with_0s v s = Inr s'"
  shows "\<exists>ws0 ws. blocks s (m_data v) = Some ws0 \<and> blocks s' (m_data v) = Some ws \<and>
           length ws = length ws0 \<and> unat (m_size v) div 64 < length ws \<and>
           (\<forall>j<64. unat (m_size v) mod 64 \<le> j \<longrightarrow> \<not> bit (ws ! (unat (m_size v) div 64)) j) \<and>
           (unat (m_size v) mod 64 = 0 \<longrightarrow> ws ! (unat (m_size v) div 64) = 0) \<and>
           (\<forall>j<unat (m_size v).
              bit (ws ! (j div 64)) (j mod 64) = bit (ws0 ! (j div 64)) (j mod 64))"
proof (cases "unat (m_size v) mod 64 = 0")
  case True
  from f no_padding [OF nw True]
  have "store_word (m_data v) (unat (m_size v) div 64) 0 s = Inr s'"
    by (simp add: fill_with_0s_def unat_div_64)
  from store_word_Inr [OF this] obtain ws0 where
    b: "blocks s (m_data v) = Some ws0" and i: "unat (m_size v) div 64 < length ws0" and
    s': "s' = s\<lparr>blocks := (blocks s)(m_data v \<mapsto> ws0[unat (m_size v) div 64 := 0])\<rparr>"
    by blast
  have b': "blocks s' (m_data v) = Some (ws0[unat (m_size v) div 64 := 0])"
    by (simp add: s')
  have nth: "ws0[unat (m_size v) div 64 := 0] ! (unat (m_size v) div 64) = 0"
    using i by simp
  have k: "bit (ws0[unat (m_size v) div 64 := 0] ! (j div 64)) (j mod 64) =
      bit (ws0 ! (j div 64)) (j mod 64)" if "j < unat (m_size v)" for j
  proof -
    from below_exact [OF that True] have "j div 64 \<noteq> unat (m_size v) div 64" .
    then show ?thesis by simp
  qed
  from b b' i nth k show ?thesis
    by (intro exI [of _ ws0] exI [of _ "ws0[unat (m_size v) div 64 := 0]"]) simp
next
  case False
  let ?off = "ucast (bit_size v AND 0x3F) :: 8 word"
  let ?len = "ucast (capacity v - bit_size v) :: 8 word"
  note p = padding_args [OF nw False]
  from p(3,4) have sum: "unat ?off + unat ?len = 64" by simp
  from f p(1,2) have w: "write_int (m_data v) (unat (m_size v) div 64) 0 ?off ?len s = Inr s'"
    by (simp add: fill_with_0s_def Let_def unat_drop_6 bit_size_def split: sum.splits)
  from write_int_one_word [OF eq_refl [OF sum] w] obtain ws0 where
    b: "blocks s (m_data v) = Some ws0" and i: "unat (m_size v) div 64 < length ws0" and
    s': "s' = s\<lparr>blocks := (blocks s)(m_data v \<mapsto>
            ws0[unat (m_size v) div 64 :=
              (ws0 ! (unat (m_size v) div 64) AND NOT (push_bit (unat ?off) (mask (unat ?len)))) OR
               push_bit (unat ?off) (0 AND mask (unat ?len))])\<rparr>"
    by blast
  let ?i = "unat (m_size v) div 64"
  let ?w = "(ws0 ! ?i AND NOT (push_bit (unat ?off) (mask (unat ?len)))) OR
               push_bit (unat ?off) (0 AND mask (unat ?len))"
  have b': "blocks s' (m_data v) = Some (ws0[?i := ?w])"
    by (simp add: s')
  have nth: "ws0[?i := ?w] ! ?i = ?w"
    using i by simp
  have z: "\<not> bit ?w j" if "unat (m_size v) mod 64 \<le> j" and "j < 64" for j
  proof -
    from that(1) have "unat ?off \<le> j" by (simp only: p(3))
    from cleared_bits [OF sum this that(2)] show ?thesis .
  qed
  have k: "bit (ws0[?i := ?w] ! (j div 64)) (j mod 64) = bit (ws0 ! (j div 64)) (j mod 64)"
    if "j < unat (m_size v)" for j
  proof (cases "j div 64 = ?i")
    case True
    from below_same_word [OF that True] have "j mod 64 < unat ?off" by (simp only: p(3))
    from kept_bits [OF sum this] have "bit ?w (j mod 64) = bit (ws0 ! ?i) (j mod 64)" .
    with True i show ?thesis by simp
  next
    case False
    then show ?thesis by simp
  qed
  from b b' i nth False z k show ?thesis
    by (intro exI [of _ ws0] exI [of _ "ws0[?i := ?w]"]) simp
qed

text \<open>The zero fill has a meaning whenever the block holds the word with index \<open>m_size div 64\<close>.\<close>

lemma fill_with_0s_runs:
  assumes nw: "unat (m_size v) + 64 < 2 ^ 64" and b: "blocks s (m_data v) = Some ws"
    and i: "unat (m_size v) div 64 < length ws"
  shows "\<exists>s'. fill_with_0s v s = Inr s'"
proof (cases "unat (m_size v) mod 64 = 0")
  case True
  from no_padding [OF nw True] b i show ?thesis
    by (simp add: fill_with_0s_def store_word_def unat_div_64)
next
  case False
  note p = padding_args [OF nw False]
  from p(3,4) have "unat (ucast (bit_size v AND 0x3F) :: 8 word) +
      unat (ucast (capacity v - bit_size v) :: 8 word) \<le> 64"
    by simp
  with p(1,2) b i show ?thesis
    by (simp add: fill_with_0s_def Let_def write_int_def load_word_def store_word_def
        unat_drop_6 bit_size_def)
qed

subsection \<open>The paths through \<^verbatim>\<open>resize\<close> and \<^verbatim>\<open>clear\<close>\<close>

lemma resize_skip:
  assumes "size_in_bytes (m_size v) = size_in_bytes n" and "m_data v \<noteq> nullptr"
  shows "resize ops outcome now v n s mon = (Inr (), v\<lparr>m_size := n\<rparr>, s, mon)"
  using assms by (simp add: resize_def)

lemma resize_Inr:
  assumes r: "resize ops outcome now v n s mon = (Inr (), v', s', mon')"
    and b: "size_in_bytes (m_size v) \<noteq> size_in_bytes n \<or> m_data v = nullptr"
  shows "\<exists>p s1. realloc_mem ops outcome (m_data v) (allocated_bytes n) s = (Inr p, s1) \<and>
           (allocated_bytes n \<noteq> 0 \<longrightarrow> p \<noteq> nullptr) \<and>
           v' = \<lparr>m_size = n, m_data = p\<rparr> \<and>
           fill_with_0s v' s1 = Inr s' \<and>
           (if size_in_bytes (m_size v) \<noteq> size_in_bytes n
            then record_delta (size_in_bytes n - size_in_bytes (m_size v)) now mon = Inr mon'
            else mon' = mon)"
proof -
  obtain res s1 where rm: "realloc_mem ops outcome (m_data v) (allocated_bytes n) s = (res, s1)"
    by (cases "realloc_mem ops outcome (m_data v) (allocated_bytes n) s")
  show ?thesis
  proof (cases res)
    case (Inl e)
    with r b rm show ?thesis by (auto simp: resize_def Let_def)
  next
    case (Inr p)
    with r b rm show ?thesis
      by (cases v) (auto simp: resize_def Let_def split: if_splits sum.splits)
  qed
qed

lemma realloc_mem_platform:
  assumes "\<not> (hugepages (the_manager s) \<and> in_address_space (the_allocator s) ptr)"
    and "realloc_mem ops outcome ptr n s = (Inr p, s1)"
  shows "\<exists>fresh. outcome = Granted p fresh \<and> p \<noteq> nullptr \<and>
           (\<exists>ws. blocks s1 p = Some ws \<and> length ws = unat n div 8)"
  using assms
  by (cases outcome)
     (auto simp: realloc_mem_def sys_realloc_def Let_def regrown_def split: if_splits)

lemma clear_result:
  assumes "clear ops now v s mon = (r, v1, s1, mon1)"
  shows "v1 = v\<lparr>m_data := nullptr\<rparr> \<and> s1 = free_mem ops (m_data v) s"
  using assms by (auto simp: clear_def Let_def split: if_splits sum.splits)

lemma record_delta_runs:
  assumes "track_usage mon \<longrightarrow> event_stack mon \<noteq> []"
  shows "\<exists>mon'. record_delta d t mon = Inr mon'"
  using assms
  by (cases "event_stack mon") (auto simp: record_delta_def Let_def)

text \<open>
  Where \<^verbatim>\<open>realloc\<close> serves the request and the profiler has an event to write to, \<^verbatim>\<open>resize\<close>
  returns; so does \<^verbatim>\<open>clear\<close>, and it leaves the profiler with an event to write to.
\<close>

lemma resize_returns:
  assumes pl: "\<not> (hugepages (the_manager s) \<and> in_address_space (the_allocator s) (m_data v))"
    and p: "p \<noteq> nullptr" and nw: "unat L + 64 < 2 ^ 64"
    and mon: "track_usage mon \<longrightarrow> event_stack mon \<noteq> []"
  shows "\<exists>v' s' mon'. resize ops (Granted p fresh) now v L s mon = (Inr (), v', s', mon')"
proof -
  let ?n = "unat (allocated_bytes L) div 8"
  let ?old = "case blocks s (m_data v) of None \<Rightarrow> [] | Some ws \<Rightarrow> ws"
  let ?s1 = "s\<lparr>realloc_requests := realloc_requests s + 1,
      blocks := ((blocks s)(m_data v := None))(p \<mapsto> regrown ?old ?n fresh)\<rparr>"
  from pl have c: "(hugepages (the_manager s) \<and>
      in_address_space (the_allocator s) (m_data v)) = False"
    by blast
  from p have rm: "realloc_mem ops (Granted p fresh) (m_data v) (allocated_bytes L) s =
      (Inr p, ?s1)"
    by (simp add: realloc_mem_def c sys_realloc_def Let_def)
  let ?v = "\<lparr>m_size = L, m_data = p\<rparr>"
  have len: "length (regrown ?old ?n fresh) = unat L div 64 + 1"
    by (simp add: regrown_def unat_allocated_bytes [OF nw])
  have "\<exists>s2. fill_with_0s ?v ?s1 = Inr s2"
  proof (rule fill_with_0s_runs)
    show "unat (m_size ?v) + 64 < 2 ^ 64"
      using nw by simp
    show "blocks ?s1 (m_data ?v) = Some (regrown ?old ?n fresh)"
      by simp
    show "unat (m_size ?v) div 64 < length (regrown ?old ?n fresh)"
      using len by simp
  qed
  then obtain s2 where f: "fill_with_0s ?v ?s1 = Inr s2" ..
  from record_delta_runs [OF mon] obtain mon' where
    rec: "record_delta (size_in_bytes L - size_in_bytes (m_size v)) now mon = Inr mon'"
    by blast
  have v: "v\<lparr>m_size := L, m_data := p\<rparr> = ?v"
    by simp
  show ?thesis
    using rm f rec p by (simp add: resize_def Let_def v)
qed

lemma clear_returns:
  assumes "track_usage mon \<longrightarrow> event_stack mon \<noteq> []"
  shows "\<exists>mon1. clear ops now v s mon =
           (Inr (), v\<lparr>m_data := nullptr\<rparr>, free_mem ops (m_data v) s, mon1) \<and>
           (track_usage mon1 \<longrightarrow> event_stack mon1 \<noteq> [])"
proof (cases "track_usage mon")
  case True
  with assms have ne: "event_stack mon \<noteq> []" by simp
  from record_delta_names [OF True ne, of "size_in_bytes (m_size v) * - 1" now]
  obtain mon1 where "record_delta (size_in_bytes (m_size v) * - 1) now mon = Inr mon1"
    and "map name (event_stack mon1) = map name (event_stack mon)"
    by blast
  with ne show ?thesis
    by (auto simp: clear_def Let_def)
next
  case False
  then show ?thesis
    by (simp add: clear_def Let_def record_delta_def)
qed

subsection \<open>The concrete runs, evaluated\<close>

lemmas run_defs =
  resize_def clear_def free_mem_def sys_free_def realloc_mem_def sys_realloc_def regrown_def
  fill_with_0s_def write_int_def load_word_def store_word_def bit_size_def capacity_def
  size_in_bytes_def allocated_bytes_def in_address_space_def record_delta_def
  initial_memory_def unused_ops_def stale_def nullptr_def the_monitor_def Let_def upt_rec
  mask_eq_exp_minus_1 word_sless_alt

lemma made65_eq:
  "fst made65 = Inr ()" "fst (snd made65) = \<lparr>m_size = 65, m_data = 0x1000\<rparr>"
  "blocks (fst (snd (snd made65))) 0x1000 = Some [- 1, 1]"
  "snd (snd (snd made65)) = the_monitor"
  by (simp_all add: made65_def v0_def run_defs)

lemma made64_eq:
  "fst made64 = Inr ()" "fst (snd made64) = \<lparr>m_size = 64, m_data = 0x1000\<rparr>"
  "blocks (fst (snd (snd made64))) 0x1000 = Some [- 1, 0]"
  by (simp_all add: made64_def v0_def run_defs)

lemma grown_eq:
  "fst grown = Inr ()" "fst (snd grown) = \<lparr>m_size = 192, m_data = 0x2000\<rparr>"
  "blocks (fst (snd (snd grown))) 0x2000 = Some [5, 0, - 1, 0]"
  by (simp_all add: grown_def v64_def mem64_def run_defs)

lemma wrapped_eq:
  "fst wrapped = Inr ()" "fst (snd wrapped) = \<lparr>m_size = - 1, m_data = nullptr\<rparr>"
  "blocks (fst (snd (snd wrapped))) = Map.empty"
  "the_manager (fst (snd (snd wrapped))) = \<lparr>hugepages = True\<rparr>"
  "snd (snd (snd wrapped)) = the_monitor"
  by (simp_all add: wrapped_def v64_def arena_memory_def arena_stub_def arena_4k_def run_defs)

lemma wrapped_again_eq:
  "fst wrapped_again = Inr ()" "fst (snd wrapped_again) = \<lparr>m_size = - 1, m_data = 0x1800\<rparr>"
  "blocks (fst (snd (snd wrapped_again))) 0x1800 = Some []"
  by (simp_all add: wrapped_again_def wrapped_eq wrapped_def v64_def arena_memory_def
      arena_stub_def arena_4k_def run_defs)

lemma made1_eq:
  "fst made1 = Inr ()" "fst (snd made1) = \<lparr>m_size = 1, m_data = 0x1000\<rparr>"
  "blocks (fst (snd (snd made1))) 0x1000 = Some [1]"
  "snd (snd (snd made1)) = the_monitor"
  by (simp_all add: made1_def v0_def run_defs)

lemma made1_64_eq:
  "fst made1_64 = Inr ()" "fst (snd made1_64) = \<lparr>m_size = 64, m_data = 0x1000\<rparr>"
  "fst (snd (snd made1_64)) = fst (snd (snd made1))"
  by (simp_all add: made1_64_def made1_eq resize_def size_in_bytes_def nullptr_def)

lemma cleared_eq:
  "fst cleared = Inr ()" "fst (snd cleared) = \<lparr>m_size = 64, m_data = nullptr\<rparr>"
  "blocks (fst (snd (snd cleared))) = Map.empty"
  "snd (snd (snd cleared)) = started\<lparr>current_usage := - 8,
     event_stack := [\<lparr>name = ''unknown'', allocations = [\<lparr>timestamp = 1, usage = - 8\<rparr>]\<rparr>]\<rparr>"
  by (simp_all add: cleared_def v64_def mem64_def started_eq run_defs)

lemma cleared_resized_eq:
  "fst cleared_resized = Inr ()" "fst (snd cleared_resized) = \<lparr>m_size = 0, m_data = 0x2000\<rparr>"
  "blocks (fst (snd (snd cleared_resized))) 0x2000 = Some [0]"
  "snd (snd (snd cleared_resized)) = started\<lparr>current_usage := - 16,
     event_stack := [\<lparr>name = ''unknown'', allocations = [\<lparr>timestamp = 2, usage = - 16\<rparr>]\<rparr>]\<rparr>"
  by (simp_all add: cleared_resized_def cleared_def v64_def mem64_def started_eq run_defs)

subsection \<open>Claims\<close>

text \<open>
  C7. \<^verbatim>\<open>in_address_space(ptr)\<close> is true exactly when \<open>ptr\<close> is the null pointer or lies in the
  arena, at or above \<open>m_base\<close> and below \<open>m_top\<close>.
\<close>

theorem in_address_space_iff:
  "in_address_space a ptr \<longleftrightarrow> ptr = nullptr \<or> (m_base a \<le> ptr \<and> ptr < m_top a)"
  by (simp add: in_address_space_def)

theorem in_address_space_iff_witness:
  "in_address_space arena_4k nullptr \<and> in_address_space arena_4k 0x1000 \<and>
   in_address_space arena_4k 0x1FFF \<and> \<not> in_address_space arena_4k 0x2000 \<and>
   \<not> in_address_space arena_4k 0xFFF"
  using in_address_space_iff [of arena_4k nullptr] in_address_space_iff [of arena_4k "0x1000"]
    in_address_space_iff [of arena_4k "0x1FFF"] in_address_space_iff [of arena_4k "0x2000"]
    in_address_space_iff [of arena_4k "0xFFF"]
  by (simp add: arena_4k_def nullptr_def)

text \<open>
  C8, amended. When \<^verbatim>\<open>mmap\<close> returns \<open>MAP_FAILED\<close>, \<^verbatim>\<open>init\<close> throws the system error
  \<open>ENOMEM\<close> after that one request, and \<^verbatim>\<open>use_hugepages\<close> passes the error on and leaves the
  manager as it was. When the pointer is not served by the arena, \<^verbatim>\<open>realloc_mem\<close> throws
  \<^verbatim>\<open>std::bad_alloc\<close> whenever \<^verbatim>\<open>realloc\<close> returns the null pointer, after that one request; when
  \<^verbatim>\<open>realloc\<close> declined the request, every block, the original one among them, is as it was,
  and a \<^verbatim>\<open>resize\<close> that has to reallocate passes the error on to its caller: the vector
  still points to its old block, and the profiler is told nothing. \<^verbatim>\<open>alloc_mem\<close> does not
  throw: when \<^verbatim>\<open>calloc\<close> declines, it returns the null pointer to its caller after that one
  request.
\<close>

theorem out_of_memory_surfaces:
  "fst (init n available MAP_FAILED s) = Inl System_Error_ENOMEM \<and>
   mmap_requests (snd (init n available MAP_FAILED s)) = mmap_requests s + 1 \<and>
   fst (use_hugepages n available MAP_FAILED s) = Inl System_Error_ENOMEM \<and>
   mmap_requests (snd (use_hugepages n available MAP_FAILED s)) = mmap_requests s + 1 \<and>
   the_manager (snd (use_hugepages n available MAP_FAILED s)) = the_manager s \<and>
   (\<not> (hugepages (the_manager s) \<and> in_address_space (the_allocator s) ptr) \<and>
    fst (sys_realloc outcome ptr k s) = nullptr \<longrightarrow>
      fst (realloc_mem ops outcome ptr k s) = Inl Bad_Alloc \<and>
      realloc_requests (snd (realloc_mem ops outcome ptr k s)) = realloc_requests s + 1) \<and>
   (\<not> (hugepages (the_manager s) \<and> in_address_space (the_allocator s) ptr) \<longrightarrow>
      realloc_mem ops Declined ptr k s =
        (Inl Bad_Alloc, s\<lparr>realloc_requests := realloc_requests s + 1\<rparr>)) \<and>
   (\<not> (hugepages (the_manager s) \<and> in_address_space (the_allocator s) (m_data v)) \<and>
    (size_in_bytes (m_size v) \<noteq> size_in_bytes L \<or> m_data v = nullptr) \<longrightarrow>
      resize ops Declined now v L s mon =
        (Inl Bad_Alloc, v\<lparr>m_size := L\<rparr>, s\<lparr>realloc_requests := realloc_requests s + 1\<rparr>, mon)) \<and>
   (\<not> hugepages (the_manager s) \<longrightarrow>
      alloc_mem ops Calloc_Declined k s =
        (Inr nullptr, s\<lparr>calloc_requests := calloc_requests s + 1\<rparr>))"
proof -
  have a: "realloc_mem ops Declined ptr k s =
      (Inl Bad_Alloc, s\<lparr>realloc_requests := realloc_requests s + 1\<rparr>)"
    if "\<not> (hugepages (the_manager s) \<and> in_address_space (the_allocator s) ptr)" for ptr k
    using that by (auto simp: realloc_mem_def sys_realloc_def Let_def)
  have b: "resize ops Declined now v L s mon =
      (Inl Bad_Alloc, v\<lparr>m_size := L\<rparr>, s\<lparr>realloc_requests := realloc_requests s + 1\<rparr>, mon)"
    if "\<not> (hugepages (the_manager s) \<and> in_address_space (the_allocator s) (m_data v))"
      and "size_in_bytes (m_size v) \<noteq> size_in_bytes L \<or> m_data v = nullptr"
    using that(2) a [OF that(1), of "allocated_bytes L"] by (auto simp: resize_def Let_def)
  have c: "fst (init n available MAP_FAILED s) = Inl System_Error_ENOMEM"
    "mmap_requests (snd (init n available MAP_FAILED s)) = mmap_requests s + 1"
    "the_manager (snd (init n available MAP_FAILED s)) = the_manager s"
    by (simp_all add: init_def sys_mmap_def Let_def)
  have d: "use_hugepages n available MAP_FAILED s =
      (Inl System_Error_ENOMEM, snd (init n available MAP_FAILED s))"
    using c(1) by (cases "init n available MAP_FAILED s") (simp add: use_hugepages_def)
  have e: "fst (realloc_mem ops outcome ptr k s) = Inl Bad_Alloc \<and>
      realloc_requests (snd (realloc_mem ops outcome ptr k s)) = realloc_requests s + 1"
    if "\<not> (hugepages (the_manager s) \<and> in_address_space (the_allocator s) ptr)"
      and "fst (sys_realloc outcome ptr k s) = nullptr"
    using that by (cases outcome) (auto simp: realloc_mem_def sys_realloc_def Let_def)
  have f: "alloc_mem ops Calloc_Declined k s =
      (Inr nullptr, s\<lparr>calloc_requests := calloc_requests s + 1\<rparr>)"
    if "\<not> hugepages (the_manager s)"
    using that by (simp add: alloc_mem_def sys_calloc_def Let_def)
  from a b c d e f show ?thesis by simp
qed

theorem out_of_memory_surfaces_witness:
  "fst (init 0 4096 MAP_FAILED initial_memory) = Inl System_Error_ENOMEM \<and>
   fst (use_hugepages 4096 0 MAP_FAILED initial_memory) = Inl System_Error_ENOMEM \<and>
   hugepages (the_manager (snd (use_hugepages 4096 0 MAP_FAILED initial_memory))) = False \<and>
   realloc_mem unused_ops Declined 0x1000 32 mem64 = (Inl Bad_Alloc, mem64\<lparr>realloc_requests := 1\<rparr>) \<and>
   blocks (mem64\<lparr>realloc_requests := 1\<rparr>) 0x1000 = Some [5, 0] \<and>
   fst (realloc_mem unused_ops Freed 0x1000 0 mem64) = Inl Bad_Alloc \<and>
   resize unused_ops Declined 0 v64 192 mem64 the_monitor =
     (Inl Bad_Alloc, \<lparr>m_size = 192, m_data = 0x1000\<rparr>, mem64\<lparr>realloc_requests := 1\<rparr>,
      the_monitor) \<and>
   alloc_mem unused_ops Calloc_Declined 32 mem64 = (Inr nullptr, mem64\<lparr>calloc_requests := 1\<rparr>)"
  using out_of_memory_surfaces [where n = 0 and available = 4096 and s = initial_memory and
      ptr = "0x1000" and v = v0 and outcome = Declined]
    out_of_memory_surfaces [where n = 4096 and available = 0 and s = initial_memory and
      ptr = "0x1000" and v = v0 and outcome = Declined]
    out_of_memory_surfaces [where s = mem64 and ptr = "0x1000" and ops = unused_ops and
      k = 32 and v = v64 and L = 192 and now = 0 and mon = the_monitor and outcome = Declined]
    out_of_memory_surfaces [where s = mem64 and ptr = "0x1000" and ops = unused_ops and
      k = 0 and v = v64 and L = 192 and outcome = Freed]
  by (simp add: mem64_def initial_memory_def v64_def size_in_bytes_def sys_realloc_def)

text \<open>
  C8 as stated fails twice. \<^verbatim>\<open>alloc_mem\<close> raises no error when \<^verbatim>\<open>calloc\<close> declines: its caller
  gets the null pointer. And \<^verbatim>\<open>realloc\<close> also returns the null pointer when it answers a
  request of 0 bytes by freeing the block: \<^verbatim>\<open>realloc_mem\<close> throws \<^verbatim>\<open>std::bad_alloc\<close> then too,
  and the original block is gone.
\<close>

theorem out_of_memory_counterexample:
  "hugepages (the_manager mem64) = False \<and>
   alloc_mem unused_ops Calloc_Declined 32 mem64 = (Inr nullptr, mem64\<lparr>calloc_requests := 1\<rparr>) \<and>
   blocks mem64 0x1000 = Some [5, 0] \<and>
   fst (sys_realloc Freed 0x1000 0 mem64) = nullptr \<and>
   fst (realloc_mem unused_ops Freed 0x1000 0 mem64) = Inl Bad_Alloc \<and>
   blocks (snd (realloc_mem unused_ops Freed 0x1000 0 mem64)) 0x1000 = None"
  by (simp add: mem64_def initial_memory_def alloc_mem_def sys_calloc_def realloc_mem_def
      sys_realloc_def in_address_space_def nullptr_def)

text \<open>
  C10. \<^verbatim>\<open>clear(v)\<close> leaves \<open>m_size\<close> as it was and sets \<open>m_data\<close> to the null pointer; it
  returns unless the profiler tracks with an empty event stack.
\<close>

theorem clear_keeps_bit_length:
  "m_size (fst (snd (clear ops now v s mon))) = m_size v \<and>
   m_data (fst (snd (clear ops now v s mon))) = nullptr \<and>
   ((track_usage mon \<longrightarrow> event_stack mon \<noteq> []) \<longrightarrow> fst (clear ops now v s mon) = Inr ())"
proof (intro conjI impI)
  obtain r v1 s1 mon1 where c: "clear ops now v s mon = (r, v1, s1, mon1)"
    by (cases "clear ops now v s mon") auto
  from clear_result [OF c] c
  show "m_size (fst (snd (clear ops now v s mon))) = m_size v"
    and "m_data (fst (snd (clear ops now v s mon))) = nullptr"
    by simp_all
next
  assume "track_usage mon \<longrightarrow> event_stack mon \<noteq> []"
  from record_delta_runs [OF this, of "size_in_bytes (m_size v) * - 1" now]
  show "fst (clear ops now v s mon) = Inr ()"
    by (auto simp: clear_def Let_def)
qed

theorem clear_keeps_bit_length_witness:
  "m_size (fst (snd cleared)) = 64 \<and> m_data (fst (snd cleared)) = nullptr \<and>
   blocks (fst (snd (snd cleared))) 0x1000 = None \<and> fst cleared = Inr ()"
  using clear_keeps_bit_length [of unused_ops 1 v64 mem64 started]
  by (simp add: cleared_def [symmetric] cleared_eq v64_def started_eq)

text \<open>
  C4, amended. A call \<^verbatim>\<open>resize(v, L)\<close> on a vector that has storage and whose rounded byte
  capacity is that of \<open>L\<close> asks for no memory and reports nothing: it sets \<open>m_size\<close> and
  leaves the memory and the profiler as they are. After a call \<^verbatim>\<open>resize(v, L)\<close> that
  returned, a second call \<^verbatim>\<open>resize(v, L)\<close> is of that kind and changes nothing at all,
  provided the first call was served by \<^verbatim>\<open>realloc\<close> or its request was not empty:
  \<open>allocated_bytes L\<close> is not 0, as it is for every \<open>L\<close> up to \<open>2 ^ 64 - 65\<close>.
\<close>

theorem resize_twice:
  "(size_in_bytes (m_size v) = size_in_bytes L \<and> m_data v \<noteq> nullptr \<longrightarrow>
      resize ops outcome now v L s mon = (Inr (), v\<lparr>m_size := L\<rparr>, s, mon)) \<and>
   ((allocated_bytes L \<noteq> 0 \<or>
     \<not> (hugepages (the_manager s) \<and> in_address_space (the_allocator s) (m_data v))) \<and>
    resize ops outcome now v L s mon = (Inr (), v1, s1, mon1) \<longrightarrow>
      resize ops outcome' now' v1 L s1 mon1 = (Inr (), v1, s1, mon1))"
proof (intro conjI impI)
  assume "size_in_bytes (m_size v) = size_in_bytes L \<and> m_data v \<noteq> nullptr"
  then show "resize ops outcome now v L s mon = (Inr (), v\<lparr>m_size := L\<rparr>, s, mon)"
    by (simp add: resize_skip)
next
  assume a: "(allocated_bytes L \<noteq> 0 \<or>
      \<not> (hugepages (the_manager s) \<and> in_address_space (the_allocator s) (m_data v))) \<and>
    resize ops outcome now v L s mon = (Inr (), v1, s1, mon1)"
  then have r: "resize ops outcome now v L s mon = (Inr (), v1, s1, mon1)" by simp
  have v1: "m_size v1 = L \<and> m_data v1 \<noteq> nullptr"
  proof (cases "size_in_bytes (m_size v) \<noteq> size_in_bytes L \<or> m_data v = nullptr")
    case True
    from resize_Inr [OF r True] obtain p s' where
      rm: "realloc_mem ops outcome (m_data v) (allocated_bytes L) s = (Inr p, s')" and
      nz: "allocated_bytes L \<noteq> 0 \<longrightarrow> p \<noteq> nullptr" and
      v1: "v1 = \<lparr>m_size = L, m_data = p\<rparr>"
      by blast
    have "p \<noteq> nullptr"
    proof (cases "allocated_bytes L \<noteq> 0")
      case True
      with nz show ?thesis by simp
    next
      case False
      with a have "\<not> (hugepages (the_manager s) \<and>
          in_address_space (the_allocator s) (m_data v))"
        by simp
      from realloc_mem_platform [OF this rm] show ?thesis by blast
    qed
    with v1 show ?thesis by simp
  next
    case False
    then have "resize ops outcome now v L s mon = (Inr (), v\<lparr>m_size := L\<rparr>, s, mon)"
      by (simp add: resize_skip)
    with r False show ?thesis by auto
  qed
  then have "resize ops outcome' now' v1 L s1 mon1 = (Inr (), v1\<lparr>m_size := L\<rparr>, s1, mon1)"
    by (simp add: resize_skip)
  moreover from v1 have "v1\<lparr>m_size := L\<rparr> = v1" by auto
  ultimately show "resize ops outcome' now' v1 L s1 mon1 = (Inr (), v1, s1, mon1)"
    by simp
qed

theorem resize_twice_witness:
  "fst made65 = Inr () \<and> allocated_bytes 65 \<noteq> 0 \<and>
   resize unused_ops Declined 5 (fst (snd made65)) 65 (fst (snd (snd made65)))
     (snd (snd (snd made65))) = (Inr (), snd made65) \<and>
   resize unused_ops Declined 5 (fst (snd made65)) 70 (fst (snd (snd made65)))
     (snd (snd (snd made65))) =
     (Inr (), \<lparr>m_size = 70, m_data = 0x1000\<rparr>, snd (snd made65))"
proof -
  have a: "allocated_bytes 65 \<noteq> 0 \<or>
      \<not> (hugepages (the_manager initial_memory) \<and>
         in_address_space (the_allocator initial_memory) (m_data v0))"
    by (simp add: allocated_bytes_def)
  have r: "resize unused_ops (Granted 0x1000 stale) 0 v0 65 initial_memory the_monitor =
      (Inr (), fst (snd made65), fst (snd (snd made65)), snd (snd (snd made65)))"
    by (simp add: made65_def [symmetric] prod_eq_iff made65_eq)
  have c: "size_in_bytes (m_size (fst (snd made65))) = size_in_bytes 70 \<and>
      m_data (fst (snd made65)) \<noteq> nullptr"
    by (simp add: made65_eq size_in_bytes_def nullptr_def)
  from resize_twice [where v = "fst (snd made65)" and L = 70 and ops = unused_ops and
      outcome = Declined and now = 5 and s = "fst (snd (snd made65))" and
      mon = "snd (snd (snd made65))"] c
  have skip: "resize unused_ops Declined 5 (fst (snd made65)) 70 (fst (snd (snd made65)))
      (snd (snd (snd made65))) =
      (Inr (), \<lparr>m_size = 70, m_data = 0x1000\<rparr>, snd (snd made65))"
    by (simp add: made65_eq prod_eq_iff)
  from resize_twice [where v = v0 and L = 65 and ops = unused_ops and
      outcome = "Granted 0x1000 stale" and now = 0 and s = initial_memory and
      mon = the_monitor and ?v1.0 = "fst (snd made65)" and ?s1.0 = "fst (snd (snd made65))" and
      ?mon1.0 = "snd (snd (snd made65))" and outcome' = Declined and now' = 5] a r
  have twice: "resize unused_ops Declined 5 (fst (snd made65)) 65 (fst (snd (snd made65)))
      (snd (snd (snd made65))) = (Inr (), snd made65)"
    by (simp add: prod_eq_iff)
  from skip twice show ?thesis
    by (simp add: made65_eq allocated_bytes_def)
qed

text \<open>
  C4 as stated fails in page-pool mode for \<open>L = 2 ^ 64 - 1\<close>, where \<^verbatim>\<open>size + 64\<close> wraps and the
  request is empty. The first call hands the block to \<^verbatim>\<open>mm_realloc\<close> with 0 bytes and takes
  the null pointer that comes back, since the test for it is skipped when
  \<^verbatim>\<open>allocated_bytes\<close> is 0: it returns with \<open>m_data\<close> null. The second call finds no storage and
  asks again: \<open>m_data\<close> and the blocks change.
\<close>

theorem resize_twice_counterexample:
  "allocated_bytes (- 1) = 0 \<and>
   fst wrapped = Inr () \<and> fst (snd wrapped) = \<lparr>m_size = - 1, m_data = nullptr\<rparr> \<and>
   blocks (fst (snd (snd wrapped))) 0x1800 = None \<and>
   fst wrapped_again = Inr () \<and>
   fst (snd wrapped_again) = \<lparr>m_size = - 1, m_data = 0x1800\<rparr> \<and>
   (0x1800 :: addr) \<noteq> nullptr \<and>
   blocks (fst (snd (snd wrapped_again))) 0x1800 = Some []"
  by (simp add: wrapped_eq wrapped_again_eq allocated_bytes_def nullptr_def)

text \<open>
  C3, amended. Take a call \<^verbatim>\<open>resize(v, L)\<close> with \<open>L\<close> at most \<open>2 ^ 64 - 65\<close> that reallocates
  (the rounded byte capacity changes or the vector has no storage) and returns. The bytes it
  asks for are \<open>L\<close> rounded up to whole 64-bit words, plus one more word exactly when \<open>L\<close> is
  a multiple of 64; where \<^verbatim>\<open>realloc\<close> serves the request, the block has that size. In the
  block, every bit from the new logical end \<open>L\<close> up to the end of the block is zero: the
  padding bits of the last word, or, when \<open>L\<close> is a multiple of 64, the reserved word. The
  bits below \<open>L\<close> are not written: each is as the reallocation handed it back.
\<close>

theorem resize_allocation_and_padding:
  assumes nw: "unat L + 64 < 2 ^ 64"
    and re: "size_in_bytes (m_size v) \<noteq> size_in_bytes L \<or> m_data v = nullptr"
    and r: "resize ops outcome now v L s mon = (Inr (), v', s', mon')"
  shows "unat (allocated_bytes L) =
           8 * ((unat L + 63) div 64) + (if unat L mod 64 = 0 then 8 else 0) \<and>
         (\<exists>s1 ws0 ws.
            realloc_mem ops outcome (m_data v) (allocated_bytes L) s = (Inr (m_data v'), s1) \<and>
            blocks s1 (m_data v') = Some ws0 \<and> blocks s' (m_data v') = Some ws \<and>
            length ws = length ws0 \<and>
            (\<not> (hugepages (the_manager s) \<and> in_address_space (the_allocator s) (m_data v)) \<longrightarrow>
               8 * length ws = unat (allocated_bytes L)) \<and>
            (\<forall>i. unat L \<le> i \<and> i < 8 * unat (allocated_bytes L) \<longrightarrow>
               i div 64 < length ws \<and> \<not> bit (ws ! (i div 64)) (i mod 64)) \<and>
            (unat L mod 64 = 0 \<longrightarrow> ws ! (unat L div 64) = 0) \<and>
            (\<forall>i<unat L. bit (ws ! (i div 64)) (i mod 64) = bit (ws0 ! (i div 64)) (i mod 64)))"
proof -
  have bytes: "unat (allocated_bytes L) = 8 * (unat L div 64 + 1)"
    by (rule unat_allocated_bytes [OF nw])
  have round: "8 * (unat L div 64 + 1) =
      8 * ((unat L + 63) div 64) + (if unat L mod 64 = 0 then 8 else 0)"
    by (simp add: round_up_exact round_up_inexact)
  from resize_Inr [OF r re] obtain p s1 where
    rm: "realloc_mem ops outcome (m_data v) (allocated_bytes L) s = (Inr p, s1)" and
    v': "v' = \<lparr>m_size = L, m_data = p\<rparr>" and
    f: "fill_with_0s v' s1 = Inr s'"
    by blast
  from v' nw have nw': "unat (m_size v') + 64 < 2 ^ 64" by simp
  from fill_with_0s_zero [OF nw' f] v' obtain ws0 ws where
    b0: "blocks s1 p = Some ws0" and b: "blocks s' p = Some ws" and
    len: "length ws = length ws0" and idx: "unat L div 64 < length ws" and
    zero: "\<forall>j<64. unat L mod 64 \<le> j \<longrightarrow> \<not> bit (ws ! (unat L div 64)) j" and
    word: "unat L mod 64 = 0 \<longrightarrow> ws ! (unat L div 64) = 0" and
    kept: "\<forall>i<unat L. bit (ws ! (i div 64)) (i mod 64) = bit (ws0 ! (i div 64)) (i mod 64)"
    by auto
  have size: "8 * length ws = unat (allocated_bytes L)"
    if "\<not> (hugepages (the_manager s) \<and> in_address_space (the_allocator s) (m_data v))"
  proof -
    from realloc_mem_platform [OF that rm] b0 have "length ws0 = unat (allocated_bytes L) div 8"
      by auto
    with len bytes show ?thesis by simp
  qed
  have bits: "i div 64 < length ws \<and> \<not> bit (ws ! (i div 64)) (i mod 64)"
    if "unat L \<le> i \<and> i < 8 * unat (allocated_bytes L)" for i
  proof -
    from that bytes have i: "unat L \<le> i" "i < 64 * (unat L div 64 + 1)" by simp_all
    from bit_position [OF i] have "i div 64 = unat L div 64" "unat L mod 64 \<le> i mod 64"
      by simp_all
    with idx zero show ?thesis by simp
  qed
  have "\<exists>s1 ws0 ws.
      realloc_mem ops outcome (m_data v) (allocated_bytes L) s = (Inr (m_data v'), s1) \<and>
      blocks s1 (m_data v') = Some ws0 \<and> blocks s' (m_data v') = Some ws \<and>
      length ws = length ws0 \<and>
      (\<not> (hugepages (the_manager s) \<and> in_address_space (the_allocator s) (m_data v)) \<longrightarrow>
         8 * length ws = unat (allocated_bytes L)) \<and>
      (\<forall>i. unat L \<le> i \<and> i < 8 * unat (allocated_bytes L) \<longrightarrow>
         i div 64 < length ws \<and> \<not> bit (ws ! (i div 64)) (i mod 64)) \<and>
      (unat L mod 64 = 0 \<longrightarrow> ws ! (unat L div 64) = 0) \<and>
      (\<forall>i<unat L. bit (ws ! (i div 64)) (i mod 64) = bit (ws0 ! (i div 64)) (i mod 64))"
    using rm v' b0 b len size bits word kept
    by (intro exI [of _ s1] exI [of _ ws0] exI [of _ ws]) simp
  with bytes round show ?thesis by simp
qed

theorem resize_allocation_and_padding_witness:
  "fst made65 = Inr () \<and> unat (allocated_bytes 65) = 16 \<and>
   (\<exists>ws. blocks (fst (snd (snd made65))) 0x1000 = Some ws \<and> length ws = 2 \<and>
      (\<forall>i. 65 \<le> i \<and> i < 128 \<longrightarrow> \<not> bit (ws ! (i div 64)) (i mod 64))) \<and>
   fst made64 = Inr () \<and> unat (allocated_bytes 64) = 16 \<and>
   (\<exists>ws. blocks (fst (snd (snd made64))) 0x1000 = Some ws \<and> length ws = 2 \<and> ws ! 1 = 0)"
proof -
  have n65: "unat (65 :: 64 word) + 64 < 2 ^ 64" and n64: "unat (64 :: 64 word) + 64 < 2 ^ 64"
    by simp_all
  have re: "size_in_bytes (m_size v0) \<noteq> size_in_bytes L \<or> m_data v0 = nullptr" for L
    by (simp add: v0_def)
  have r65: "resize unused_ops (Granted 0x1000 stale) 0 v0 65 initial_memory the_monitor =
      (Inr (), fst (snd made65), fst (snd (snd made65)), snd (snd (snd made65)))"
    by (simp add: made65_def [symmetric] prod_eq_iff made65_eq)
  have r64: "resize unused_ops (Granted 0x1000 stale) 0 v0 64 initial_memory the_monitor =
      (Inr (), fst (snd made64), fst (snd (snd made64)), snd (snd (snd made64)))"
    by (simp add: made64_def [symmetric] prod_eq_iff made64_eq)
  have p: "\<not> (hugepages (the_manager initial_memory) \<and>
      in_address_space (the_allocator initial_memory) (m_data v0))"
    by (simp add: initial_memory_def)
  from resize_allocation_and_padding [OF n65 re r65] p
  have a: "unat (allocated_bytes 65) = 16 \<and>
     (\<exists>ws. blocks (fst (snd (snd made65))) 0x1000 = Some ws \<and> length ws = 2 \<and>
        (\<forall>i. 65 \<le> i \<and> i < 128 \<longrightarrow> \<not> bit (ws ! (i div 64)) (i mod 64)))"
    by (auto simp: made65_eq allocated_bytes_def)
  from resize_allocation_and_padding [OF n64 re r64] p
  have b: "unat (allocated_bytes 64) = 16 \<and>
     (\<exists>ws. blocks (fst (snd (snd made64))) 0x1000 = Some ws \<and> length ws = 2 \<and> ws ! 1 = 0)"
    by (auto simp: made64_eq allocated_bytes_def)
  from a b show ?thesis
    by (simp add: made65_eq made64_eq)
qed

text \<open>
  C3 as stated fails three times. Growing the vector of 64 bits to 192 bits reallocates, and
  the word with index 2, the bits 128 to 191 between the old logical end and the new
  capacity, keeps what \<^verbatim>\<open>realloc\<close> left there: here every bit is set. For \<open>L = 2 ^ 64 - 64\<close>,
  a multiple of 64, the sum \<^verbatim>\<open>size + 64\<close> wraps to 0: the call asks for 0 bytes, where \<open>L\<close>
  rounded up to words is \<open>2 ^ 61 - 8\<close> bytes. And growing a vector of 1 bit to 64 bits does
  not reallocate, the rounded byte capacity being 8 for both: the vector keeps its block of
  8 bytes, where \<open>allocated_bytes 64\<close> is 16, and has no reserved word, which the comment in
  \<^verbatim>\<open>resize\<close> says it needs; reading the word with index 1 has no meaning.
\<close>

theorem resize_padding_counterexample:
  "size_in_bytes (m_size v64) \<noteq> size_in_bytes 192 \<and>
   fst grown = Inr () \<and> fst (snd grown) = \<lparr>m_size = 192, m_data = 0x2000\<rparr> \<and>
   blocks (fst (snd (snd grown))) 0x2000 = Some [5, 0, - 1, 0] \<and>
   bit ([5, 0, - 1, 0 :: 64 word] ! (128 div 64)) (128 mod 64) \<and>
   (- 64 :: 64 word) mod 64 = 0 \<and> allocated_bytes (- 64) = 0 \<and>
   size_in_bytes (- 64) = 2 ^ 61 - 8 \<and>
   fst made1 = Inr () \<and> fst (snd made1) = \<lparr>m_size = 1, m_data = 0x1000\<rparr> \<and>
   fst made1_64 = Inr () \<and> fst (snd made1_64) = \<lparr>m_size = 64, m_data = 0x1000\<rparr> \<and>
   blocks (fst (snd (snd made1_64))) 0x1000 = Some [1] \<and>
   allocated_bytes 64 = 16 \<and>
   load_word 0x1000 1 (fst (snd (snd made1_64))) = Inl Undefined_Behaviour"
  by (simp add: grown_eq made1_eq made1_64_eq load_word_def v64_def size_in_bytes_def
      allocated_bytes_def mask_eq_exp_minus_1 push_bit_eq_mult)

text \<open>
  C1, amended. After \<^verbatim>\<open>clear(v)\<close>, a call \<^verbatim>\<open>resize(v, 0)\<close> that returns leaves \<open>m_size\<close> 0 and
  \<open>m_data\<close> not null: it points to the block that the call asked for, whose word 0, the
  reserved word, is zero. \<^verbatim>\<open>clear\<close> left the bit length in \<open>m_size\<close>; when the byte capacity
  \<open>B\<close> of that length is not 0, the \<^verbatim>\<open>resize\<close> passes \<open>0 - B\<close> to \<^verbatim>\<open>record\<close>, and when it is 0
  the \<^verbatim>\<open>resize\<close> leaves the profiler as it is.
\<close>

theorem clear_then_resize_0:
  assumes c: "clear ops t1 v s mon = (Inr (), v1, s1, mon1)"
    and r: "resize ops outcome t2 v1 0 s1 mon1 = (Inr (), v2, s2, mon2)"
  shows "m_size v1 = m_size v \<and> m_data v1 = nullptr \<and>
         m_size v2 = 0 \<and> m_data v2 \<noteq> nullptr \<and>
         (\<exists>ws. blocks s2 (m_data v2) = Some ws \<and> ws \<noteq> [] \<and> ws ! 0 = 0) \<and>
         (size_in_bytes (m_size v) = 0 \<longrightarrow> mon2 = mon1) \<and>
         (size_in_bytes (m_size v) \<noteq> 0 \<longrightarrow>
            record_delta (0 - size_in_bytes (m_size v)) t2 mon1 = Inr mon2)"
proof -
  from clear_result [OF c] have v1: "v1 = v\<lparr>m_data := nullptr\<rparr>" by simp
  then have re: "size_in_bytes (m_size v1) \<noteq> size_in_bytes 0 \<or> m_data v1 = nullptr"
    by simp
  have z: "size_in_bytes 0 = 0" and a: "allocated_bytes 0 \<noteq> 0"
    by (simp_all add: size_in_bytes_def allocated_bytes_def)
  from resize_Inr [OF r re] a obtain p s1' where
    p: "p \<noteq> nullptr" and v2: "v2 = \<lparr>m_size = 0, m_data = p\<rparr>" and
    f: "fill_with_0s v2 s1' = Inr s2" and
    m: "if size_in_bytes (m_size v1) \<noteq> size_in_bytes 0
        then record_delta (size_in_bytes 0 - size_in_bytes (m_size v1)) t2 mon1 = Inr mon2
        else mon2 = mon1"
    by blast
  from v2 have nw: "unat (m_size v2) + 64 < 2 ^ 64" by simp
  from fill_with_0s_zero [OF nw f] v2 obtain ws where
    "blocks s2 p = Some ws" "0 < length ws" "ws ! 0 = 0"
    by auto
  with v1 v2 p m z show ?thesis
    by (auto split: if_splits)
qed

theorem clear_then_resize_0_witness:
  "fst cleared = Inr () \<and> fst cleared_resized = Inr () \<and>
   m_size (fst (snd cleared_resized)) = 0 \<and> m_data (fst (snd cleared_resized)) = 0x2000 \<and>
   blocks (fst (snd (snd cleared_resized))) 0x2000 = Some [0] \<and>
   size_in_bytes (m_size v64) = 8 \<and>
   record_delta (0 - 8) 2 (snd (snd (snd cleared))) = Inr (snd (snd (snd cleared_resized)))"
proof -
  have c: "clear unused_ops 1 v64 mem64 started =
      (Inr (), fst (snd cleared), fst (snd (snd cleared)), snd (snd (snd cleared)))"
    by (simp add: cleared_def [symmetric] prod_eq_iff cleared_eq)
  have r: "resize unused_ops (Granted 0x2000 stale) 2 (fst (snd cleared)) 0
      (fst (snd (snd cleared))) (snd (snd (snd cleared))) =
      (Inr (), fst (snd cleared_resized), fst (snd (snd cleared_resized)),
       snd (snd (snd cleared_resized)))"
    by (simp add: cleared_resized_def [symmetric] prod_eq_iff cleared_resized_eq)
  have b: "size_in_bytes (m_size v64) = 8"
    by (simp add: v64_def size_in_bytes_def)
  from clear_then_resize_0 [OF c r] b show ?thesis
    by (simp add: cleared_eq cleared_resized_eq)
qed

text \<open>
  C1 as stated fails on the vector of 64 bits while the profiler tracks. \<^verbatim>\<open>clear\<close> frees the
  block and reports -8. The \<^verbatim>\<open>resize(v, 0)\<close> after it takes a new block of 8 bytes, so that
  \<open>m_data\<close> is not null, and reports -8 once more: the usage goes from -8 to -16.
\<close>

theorem clear_then_resize_0_counterexample:
  "fst cleared = Inr () \<and> fst (snd cleared) = \<lparr>m_size = 64, m_data = nullptr\<rparr> \<and>
   current_usage (snd (snd (snd cleared))) = - 8 \<and>
   fst cleared_resized = Inr () \<and>
   fst (snd cleared_resized) = \<lparr>m_size = 0, m_data = 0x2000\<rparr> \<and>
   (0x2000 :: addr) \<noteq> nullptr \<and>
   current_usage (snd (snd (snd cleared_resized))) = - 16"
  by (simp add: cleared_eq cleared_resized_eq nullptr_def)

end
